theory Spec2Isabelle
  imports Main "HOL-Library.Word"
begin

section \<open>Netflix content and viewership analysis: the notebook's pipeline\<close>

text \<open>
  The notebook \<^verbatim>\<open>Milestone1.ipynb\<close> loads two CSV files with pandas, merges them on
  \<^verbatim>\<open>show_id\<close> and draws four families of charts. This theory embeds its code cells:
  the loader, the merge cell and the four \<^verbatim>\<open>plot_*\<close> functions, together with the
  pandas operations they call (\<^verbatim>\<open>rename\<close>, \<^verbatim>\<open>merge\<close>, boolean row selection,
  \<^verbatim>\<open>apply\<close>, \<^verbatim>\<open>explode\<close>, \<^verbatim>\<open>groupby(...).size()\<close>, \<^verbatim>\<open>groupby(...)[c].sum()\<close>,
  \<^verbatim>\<open>unstack\<close>, \<^verbatim>\<open>reset_index\<close>, \<^verbatim>\<open>melt\<close>), each as pandas 2 documents it.

  Conventions. A function of the notebook that mutates the frame it is given returns the
  frame as it is after the call. Everything printed or handed to the display and charting
  collaborators is recorded, in order, as a list of events. An exception that leaves a
  function is the \<open>Some\<close> in the last component of its result.
\<close>

subsection \<open>Data model\<close>

text \<open>
  A cell of a frame. \<^verbatim>\<open>read_csv\<close> stores a column of integers as numpy \<^verbatim>\<open>int64\<close>, so an
  integer cell is a 64-bit word read in two's complement (\<open>sint\<close>) and its arithmetic
  wraps. \<open>CNull\<close> is the missing value (NaN/None). \<open>CList\<close> is a Python list, which a
  genre cell holds once its text has been evaluated. Floating-point cells are not
  modelled; pandas holds a numeric column that has missing values as \<^verbatim>\<open>float64\<close>, and the
  model keeps the integers of such a column as \<open>CInt\<close> (exact below \<open>2^53\<close>).
\<close>

datatype cell = CInt "64 word" | CStr string | CList "cell list" | CNull

text \<open>
  A DataFrame: the column labels and the rows, each row a list of cells in column order.
  Frames read by \<^verbatim>\<open>read_csv\<close> have distinct labels and rows as long as the header.
\<close>

record dataframe =
  columns :: "string list"
  rows :: "cell list list"


text \<open>
  Exceptions, each with the text that \<^verbatim>\<open>str(e)\<close> gives (written without Python's
  quotation marks). \<open>NotModelled\<close> marks a pandas behaviour this theory does not describe.
\<close>

datatype exn =
    KeyError string
  | TypeError string
  | ValueError string
  | MergeError string
  | OtherException string
  | NotModelled string

fun exn_text :: "exn \<Rightarrow> string" where
  "exn_text (KeyError s) = s"
| "exn_text (TypeError s) = s"
| "exn_text (ValueError s) = s"
| "exn_text (MergeError s) = s"
| "exn_text (OtherException s) = s"
| "exn_text (NotModelled s) = s"

text \<open>
  What the notebook shows: a printed line, \<^verbatim>\<open>display(data.head())\<close>, a stacked bar chart
  of a long-form table (x value, colour value, bar height), a pie chart for one region
  (genre, count), and a side effect performed while evaluating a genre text.
\<close>

datatype event =
    Print string
  | Display dataframe
  | BarChart "(cell \<times> cell \<times> cell) list"
  | PieChart cell "(cell \<times> cell) list"
  | SideEffect string

subsection \<open>Column access\<close>

fun col_index :: "string \<Rightarrow> string list \<Rightarrow> nat option" where
  "col_index c [] = None"
| "col_index c (x # xs) =
     (if c = x then Some 0 else map_option Suc (col_index c xs))"

text \<open>A row shorter than the header reads as missing there, as \<^verbatim>\<open>read_csv\<close> pads it.\<close>

definition cell_at :: "cell list \<Rightarrow> nat \<Rightarrow> cell" where
  "cell_at r i = (if i < length r then r ! i else CNull)"

text \<open>\<^verbatim>\<open>df[c]\<close>: the column, or \<^verbatim>\<open>KeyError\<close>.\<close>

definition get_column :: "dataframe \<Rightarrow> string \<Rightarrow> exn + cell list" where
  "get_column df c =
     (case col_index c (columns df) of
        None \<Rightarrow> Inl (KeyError c)
      | Some i \<Rightarrow> Inr (map (\<lambda>r. cell_at r i) (rows df)))"

text \<open>
  \<^verbatim>\<open>df[c] = values\<close>: overwrites the column where the label exists, appends a new last
  column otherwise. The values are one per row.
\<close>

definition set_column :: "string \<Rightarrow> cell list \<Rightarrow> dataframe \<Rightarrow> dataframe" where
  "set_column c vs df =
     (case col_index c (columns df) of
        Some i \<Rightarrow> df\<lparr>rows := map (\<lambda>(r, v). r[i := v]) (zip (rows df) vs)\<rparr>
      | None \<Rightarrow>
          df\<lparr>columns := columns df @ [c],
             rows := map (\<lambda>(r, v). r @ [v]) (zip (rows df) vs)\<rparr>)"

subsection \<open>The loader\<close>

text \<open>
  \<^verbatim>\<open>
  def load_dataset(url):
      try:
          return pd.read_csv(url)
      except Exception as e:
          print(f'Error loading dataset: {e}')
          return None
  \<close>
  \<^verbatim>\<open>pd.read_csv\<close> is the external collaborator: a parameter that, for a location, either
  returns a frame or raises an exception (\<open>Inl\<close>). The result of \<open>load_dataset\<close> has three
  parts: what was printed, what was returned (\<open>None\<close> is Python's \<^verbatim>\<open>None\<close>), and the
  exception that left the function, if any.
\<close>

definition load_dataset ::
  "(string \<Rightarrow> exn + dataframe) \<Rightarrow> string \<Rightarrow> event list \<times> dataframe option \<times> exn option" where
  "load_dataset read_csv url =
     (case read_csv url of
        Inr df \<Rightarrow> ([], Some df, None)
      | Inl e \<Rightarrow> ([Print (''Error loading dataset: '' @ exn_text e)], None, None))"

subsection \<open>Interval bucketing\<close>

text \<open>
  \<^verbatim>\<open>(data['release_year'] // 5) * 5\<close> on one \<^verbatim>\<open>int64\<close> entry: numpy's \<^verbatim>\<open>//\<close> is floor
  division, as \<open>div\<close> on \<open>int\<close> is, and the product wraps modulo \<open>2^64\<close>.
\<close>

definition year_interval :: "64 word \<Rightarrow> 64 word" where
  "year_interval y = word_of_int (sint y div 5) * 5"

text \<open>
  The same on a cell: a missing year stays missing; text and lists have no \<^verbatim>\<open>//\<close> with
  an integer.
\<close>

fun year_interval_cell :: "cell \<Rightarrow> exn + cell" where
  "year_interval_cell (CInt y) = Inr (CInt (year_interval y))"
| "year_interval_cell CNull = Inr CNull"
| "year_interval_cell (CStr s) =
     Inl (TypeError ''unsupported operand type(s) for //: str and int'')"
| "year_interval_cell (CList xs) =
     Inl (TypeError ''unsupported operand type(s) for //: list and int'')"

text \<open>Element by element over a column; the first failing entry raises.\<close>

fun map_exn :: "('a \<Rightarrow> exn + 'b) \<Rightarrow> 'a list \<Rightarrow> exn + 'b list" where
  "map_exn f [] = Inr []"
| "map_exn f (x # xs) =
     (case f x of
        Inl e \<Rightarrow> Inl e
      | Inr y \<Rightarrow> (case map_exn f xs of Inl e \<Rightarrow> Inl e | Inr ys \<Rightarrow> Inr (y # ys)))"

definition year_interval_column :: "cell list \<Rightarrow> exn + cell list" where
  "year_interval_column cs = map_exn year_interval_cell cs"

subsection \<open>The merge cell\<close>

text \<open>
  \<^verbatim>\<open>
  if 'id' in df.columns:
      df.rename(columns={'id': 'show_id'}, inplace=True)
  \<close>
\<close>

definition rename_id :: "dataframe \<Rightarrow> dataframe" where
  "rename_id df =
     (if ''id'' \<in> set (columns df)
      then df\<lparr>columns := map (\<lambda>c. if c = ''id'' then ''show_id'' else c) (columns df)\<rparr>
      else df)"

definition drop_at :: "nat \<Rightarrow> 'a list \<Rightarrow> 'a list" where
  "drop_at i r = take i r @ drop (Suc i) r"

fun is_list_cell :: "cell \<Rightarrow> bool" where
  "is_list_cell (CList xs) = True"
| "is_list_cell c = False"

fun is_text_cell :: "cell \<Rightarrow> bool" where
  "is_text_cell (CStr s) = True"
| "is_text_cell c = False"

text \<open>
  The labels of a merged frame: the left labels, then the right labels without the key;
  a label other than the key that both frames have gets the suffix \<^verbatim>\<open>_x\<close> on the left and
  \<^verbatim>\<open>_y\<close> on the right.
\<close>

definition merged_columns :: "string \<Rightarrow> string list \<Rightarrow> string list \<Rightarrow> string list" where
  "merged_columns key lc rc =
     map (\<lambda>c. if c \<noteq> key \<and> c \<in> set rc then c @ ''_x'' else c) lc @
     map (\<lambda>c. if c \<in> set lc then c @ ''_y'' else c) (filter (\<lambda>c. c \<noteq> key) rc)"

text \<open>
  \<^verbatim>\<open>pd.merge(left, right, on=key, how='inner')\<close>. It raises \<^verbatim>\<open>KeyError\<close> when a frame has
  no column \<^verbatim>\<open>key\<close>, \<^verbatim>\<open>ValueError\<close> when the label stands twice in a frame or when one key
  column is text and the other numeric (unless a frame has no rows), \<^verbatim>\<open>TypeError\<close> for a
  list as key, and \<^verbatim>\<open>MergeError\<close> when the suffixes produce a label twice. Otherwise every
  left row is paired with every right row that has an equal key (missing keys match each
  other), in the order of the left rows, and the pair carries the left cells followed by
  the right cells without the key.
\<close>

definition pd_merge :: "dataframe \<Rightarrow> dataframe \<Rightarrow> string \<Rightarrow> exn + dataframe" where
  "pd_merge left right key =
     (case (col_index key (columns left), col_index key (columns right)) of
        (Some i, Some j) \<Rightarrow>
          (let lk = map (\<lambda>r. cell_at r i) (rows left);
               rk = map (\<lambda>r. cell_at r j) (rows right);
               cols = merged_columns key (columns left) (columns right)
           in if 1 < count_list (columns left) key \<or> 1 < count_list (columns right) key
              then Inl (ValueError (''The column label '' @ key @ '' is not unique.''))
              else if lk \<noteq> [] \<and> rk \<noteq> [] \<and> list_ex is_text_cell lk \<noteq> list_ex is_text_cell rk
              then Inl (ValueError
                (''You are trying to merge on object and int64 columns for key '' @ key))
              else if list_ex is_list_cell (lk @ rk)
              then Inl (TypeError ''unhashable type: list'')
              else if \<not> distinct cols
              then Inl (MergeError ''Passing suffixes which cause duplicate columns is not allowed'')
              else Inr \<lparr>columns = cols,
                        rows = concat (map (\<lambda>l.
                                 map (\<lambda>r. l @ drop_at j r)
                                   (filter (\<lambda>r. cell_at r j = cell_at l i) (rows right)))
                               (rows left))\<rparr>)
      | _ \<Rightarrow> Inl (KeyError key))"

text \<open>
  The notebook's global names: the two loaded frames (\<open>None\<close> is Python's \<^verbatim>\<open>None\<close>) and
  \<^verbatim>\<open>data\<close>, which is unbound (\<open>None\<close>) until the merge cell assigns it.
\<close>

record notebook =
  netflix_df :: "dataframe option"
  viewership_df :: "dataframe option"
  data :: "dataframe option"

definition apostrophe :: string where
  "apostrophe = [CHR 0x27]"

text \<open>
  \<^verbatim>\<open>
  if netflix_df is not None and viewership_df is not None:
      for df in [netflix_df, viewership_df]:
          if 'id' in df.columns:
              df.rename(columns={'id': 'show_id'}, inplace=True)
      data = pd.merge(netflix_df, viewership_df, on='show_id', how='inner')
      display(data.head())
      print("We've successfully merged ...")
  else:
      print("Failed to load or merge datasets")
  \<close>
\<close>

definition merge_cell :: "notebook \<Rightarrow> notebook \<times> event list \<times> exn option" where
  "merge_cell nb =
     (case (netflix_df nb, viewership_df nb) of
        (Some n, Some v) \<Rightarrow>
          (let nb1 = nb\<lparr>netflix_df := Some (rename_id n), viewership_df := Some (rename_id v)\<rparr>
           in case pd_merge (rename_id n) (rename_id v) ''show_id'' of
                Inl e \<Rightarrow> (nb1, [], Some e)
              | Inr d \<Rightarrow>
                  (nb1\<lparr>data := Some d\<rparr>,
                   [Display (d\<lparr>rows := take 5 (rows d)\<rparr>),
                    Print (''We'' @ apostrophe @ ''ve successfully merged the Netflix content and viewership datasets on the ''
                      @ apostrophe @ ''show_id'' @ apostrophe
                      @ '' column. This combined dataset will be used for our analysis.'')],
                   None))
      | _ \<Rightarrow> (nb, [Print ''Failed to load or merge datasets''], None))"

subsection \<open>Group keys and their order\<close>

text \<open>
  pandas lists group keys in ascending order: integers by value, text by code point,
  integers before text.
\<close>

fun str_less :: "string \<Rightarrow> string \<Rightarrow> bool" where
  "str_less [] [] = False"
| "str_less [] (y # ys) = True"
| "str_less (x # xs) [] = False"
| "str_less (x # xs) (y # ys) =
     ((of_char x :: nat) < of_char y \<or> (x = y \<and> str_less xs ys))"

fun cell_less :: "cell \<Rightarrow> cell \<Rightarrow> bool" where
  "cell_less (CInt a) (CInt b) = (sint a < sint b)"
| "cell_less (CInt a) (CStr t) = True"
| "cell_less (CStr s) (CStr t) = str_less s t"
| "cell_less c d = False"

fun insort_cell :: "cell \<Rightarrow> cell list \<Rightarrow> cell list" where
  "insort_cell k [] = [k]"
| "insort_cell k (x # xs) = (if cell_less x k then x # insort_cell k xs else k # x # xs)"

definition sort_unique :: "cell list \<Rightarrow> cell list" where
  "sort_unique ks = foldr insort_cell (remdups ks) []"

text \<open>Key pairs are ordered by the first key, then by the second.\<close>

fun pair_less :: "cell \<times> cell \<Rightarrow> cell \<times> cell \<Rightarrow> bool" where
  "pair_less (a, b) (c, d) = (cell_less a c \<or> (a = c \<and> cell_less b d))"

fun insort_pair :: "cell \<times> cell \<Rightarrow> (cell \<times> cell) list \<Rightarrow> (cell \<times> cell) list" where
  "insort_pair k [] = [k]"
| "insort_pair k (x # xs) = (if pair_less x k then x # insort_pair k xs else k # x # xs)"

definition sort_pairs :: "(cell \<times> cell) list \<Rightarrow> (cell \<times> cell) list" where
  "sort_pairs ks = foldr insort_pair ks []"

text \<open>
  The keys of \<^verbatim>\<open>df.groupby([d1, d2])\<close>, one pair per row the grouping keeps: a row with a
  missing value in either column is dropped (\<^verbatim>\<open>dropna=True\<close>). A missing column raises
  \<^verbatim>\<open>KeyError\<close>, a list as key \<^verbatim>\<open>TypeError\<close> (lists are unhashable).
\<close>

definition group_keys :: "dataframe \<Rightarrow> string \<Rightarrow> string \<Rightarrow> exn + (cell \<times> cell) list" where
  "group_keys df d1 d2 =
     (case get_column df d1 of
        Inl e \<Rightarrow> Inl e
      | Inr xs \<Rightarrow>
          (case get_column df d2 of
             Inl e \<Rightarrow> Inl e
           | Inr ys \<Rightarrow>
               if list_ex is_list_cell (xs @ ys) then Inl (TypeError ''unhashable type: list'')
               else Inr (filter (\<lambda>(a, b). a \<noteq> CNull \<and> b \<noteq> CNull) (zip xs ys))))"

text \<open>
  The levels of the two keys of a grouping: for each key column its values that are not
  missing, over all rows (also the rows that the grouping drops because the other key is
  missing).
\<close>

definition key_levels :: "dataframe \<Rightarrow> string \<Rightarrow> string \<Rightarrow> cell list \<times> cell list" where
  "key_levels df d1 d2 =
     (case (get_column df d1, get_column df d2) of
        (Inr xs, Inr ys) \<Rightarrow> (filter (\<lambda>a. a \<noteq> CNull) xs, filter (\<lambda>b. b \<noteq> CNull) ys)
      | _ \<Rightarrow> ([], []))"

text \<open>
  A grouped series: one entry per observed key pair. \<^verbatim>\<open>.size()\<close> counts the rows of each
  group (an \<^verbatim>\<open>int64\<close>).
\<close>

type_synonym series = "((cell \<times> cell) \<times> cell) list"

definition size_series :: "(cell \<times> cell) list \<Rightarrow> series" where
  "size_series ks = map (\<lambda>k. (k, CInt (of_nat (count_list ks k)))) (remdups ks)"

definition groupby_size :: "dataframe \<Rightarrow> string \<Rightarrow> string \<Rightarrow> exn + series" where
  "groupby_size df d1 d2 =
     (case group_keys df d1 d2 of Inl e \<Rightarrow> Inl e | Inr ks \<Rightarrow> Inr (size_series ks))"

text \<open>
  \<^verbatim>\<open>df.groupby([d1, d2])[c].sum()\<close>: per group the wrapping sum of the integers of column
  \<^verbatim>\<open>c\<close>, missing values skipped. Sums over text are not modelled.
\<close>

fun sum_cells :: "cell list \<Rightarrow> exn + 64 word" where
  "sum_cells [] = Inr 0"
| "sum_cells (CInt w # cs) = (case sum_cells cs of Inl e \<Rightarrow> Inl e | Inr t \<Rightarrow> Inr (w + t))"
| "sum_cells (CNull # cs) = sum_cells cs"
| "sum_cells (c # cs) = Inl (NotModelled ''sum of a column that is not numeric'')"

definition groupby_sum :: "dataframe \<Rightarrow> string \<Rightarrow> string \<Rightarrow> string \<Rightarrow> exn + series" where
  "groupby_sum df d1 d2 c =
     (case get_column df d1 of
        Inl e \<Rightarrow> Inl e
      | Inr xs \<Rightarrow>
          (case get_column df d2 of
             Inl e \<Rightarrow> Inl e
           | Inr ys \<Rightarrow>
               (case get_column df c of
                  Inl e \<Rightarrow> Inl (KeyError (''Column not found: '' @ c))
                | Inr vs \<Rightarrow>
                    if list_ex is_list_cell (xs @ ys) then Inl (TypeError ''unhashable type: list'')
                    else
                      (let kept = filter (\<lambda>((a, b), v). a \<noteq> CNull \<and> b \<noteq> CNull)
                                    (zip (zip xs ys) vs)
                       in map_exn (\<lambda>k.
                            case sum_cells (map snd (filter (\<lambda>(k', v). k' = k) kept)) of
                              Inl e \<Rightarrow> Inl e
                            | Inr t \<Rightarrow> Inr (k, CInt t))
                          (remdups (map fst kept))))))"

subsection \<open>Wide form and long form\<close>

text \<open>
  \<^verbatim>\<open>.unstack(fill_value=fill)\<close> turns a series keyed by pairs into a table: one row per
  observed first key, one column per observed second key, and \<open>fill\<close> where the series has
  no entry (pandas's default fill is the missing value). The order of the observed values
  of a key: ascending when every value of its level is observed; when the level has a
  value that is not observed (it occurs only in rows the grouping dropped), pandas
  removes the unused values and lists the others in the order in which they first occur
  along the series, which runs through the key pairs in ascending order.
\<close>

definition level_order :: "cell list \<Rightarrow> cell list \<Rightarrow> cell list" where
  "level_order level observed =
     (if list_all (\<lambda>v. v \<in> set observed) level then sort_unique observed
      else remdups observed)"

record wide =
  w_index :: "cell list"
  w_labels :: "cell list"
  w_entry :: "cell \<Rightarrow> cell \<Rightarrow> cell"

definition unstack :: "cell \<Rightarrow> cell list \<times> cell list \<Rightarrow> series \<Rightarrow> wide" where
  "unstack fill levels s =
     \<lparr>w_index = level_order (fst levels) (map fst (sort_pairs (map fst s))),
      w_labels = level_order (snd levels) (map snd (sort_pairs (map fst s))),
      w_entry = (\<lambda>a b. case map_of s (a, b) of Some v \<Rightarrow> v | None \<Rightarrow> fill)\<rparr>"

text \<open>
  \<^verbatim>\<open>.reset_index()\<close> makes the index a column named \<open>d1\<close>; it raises when a column of that
  name is already there.
\<close>

definition reset_index :: "string \<Rightarrow> wide \<Rightarrow> exn + wide" where
  "reset_index d1 w =
     (if CStr d1 \<in> set (w_labels w)
      then Inl (ValueError (''cannot insert '' @ d1 @ '', already exists''))
      else Inr w)"

text \<open>
  \<^verbatim>\<open>.melt(id_vars=d1, var_name=..., value_name=vn)\<close>: column by column, one long-form row
  (index value, column label, entry) per index value. pandas refuses a \<open>value_name\<close> that
  is already a column label.
\<close>

definition melt :: "string \<Rightarrow> wide \<Rightarrow> exn + (cell \<times> cell \<times> cell) list" where
  "melt vn w =
     (if CStr vn \<in> set (w_labels w)
      then Inl (ValueError
        (''value_name ('' @ vn @ '') cannot match an element in the DataFrame columns.''))
      else Inr (concat (map (\<lambda>b. map (\<lambda>a. (a, b, w_entry w a b)) (w_index w)) (w_labels w))))"

text \<open>
  \<^verbatim>\<open>df.groupby([d1, d2]).size().unstack(fill_value=0).reset_index().melt(id_vars=d1, ...,
  value_name=vn)\<close>, the count aggregation of three of the four analyses.
\<close>

definition count_long ::
  "dataframe \<Rightarrow> string \<Rightarrow> string \<Rightarrow> string \<Rightarrow> exn + (cell \<times> cell \<times> cell) list" where
  "count_long df d1 d2 vn =
     (case groupby_size df d1 d2 of
        Inl e \<Rightarrow> Inl e
      | Inr s \<Rightarrow>
          (case reset_index d1 (unstack (CInt 0) (key_levels df d1 d2) s) of
             Inl e \<Rightarrow> Inl e
           | Inr w \<Rightarrow> melt vn w))"

text \<open>
  \<^verbatim>\<open>df.groupby([d1, d2])[c].sum().unstack().reset_index().melt(id_vars=d1, ...,
  value_name=vn)\<close>, the aggregation of the viewership analysis: \<^verbatim>\<open>unstack\<close> has no
  \<^verbatim>\<open>fill_value\<close> here.
\<close>

definition sum_long ::
  "dataframe \<Rightarrow> string \<Rightarrow> string \<Rightarrow> string \<Rightarrow> string \<Rightarrow> exn + (cell \<times> cell \<times> cell) list" where
  "sum_long df d1 d2 c vn =
     (case groupby_sum df d1 d2 c of
        Inl e \<Rightarrow> Inl e
      | Inr s \<Rightarrow>
          (case reset_index d1 (unstack CNull (key_levels df d1 d2) s) of
             Inl e \<Rightarrow> Inl e
           | Inr w \<Rightarrow> melt vn w))"

subsection \<open>List-field explosion\<close>

text \<open>
  Python's \<^verbatim>\<open>eval\<close> is a parameter. The text it is given is evaluated in the notebook's
  namespace, where the name \<^verbatim>\<open>data\<close> denotes the merged table, the very table the notebook
  passes to each analysis. So the evaluator takes the text and that table, and gives the
  side effects it performs, the table as the evaluation leaves it, and the value it
  returns or the exception it raises. Its values are cells: integers, text, lists of
  these, or the missing value.
\<close>

type_synonym evaluator = "string \<Rightarrow> dataframe \<Rightarrow> event list \<times> dataframe \<times> (exn + cell)"


text \<open>A text between apostrophes, as a Python string literal is written.\<close>

definition quoted :: "string \<Rightarrow> string" where
  "quoted s = apostrophe @ s @ apostrophe"

text \<open>
  \<^verbatim>\<open>column.apply(lambda x: eval(x) if isinstance(x, str) else x)\<close> over the entries of a
  column, read before the first evaluation: every text entry is handed to \<^verbatim>\<open>eval\<close> as it
  is, in row order, each evaluation starting from the table as the one before left it;
  every other entry is kept. An exception of \<^verbatim>\<open>eval\<close> ends the pass. The result is the
  side effects, the table after the pass, and the new entries or the exception.
\<close>

fun apply_eval ::
  "evaluator \<Rightarrow> cell list \<Rightarrow> dataframe \<Rightarrow> event list \<times> dataframe \<times> (exn + cell list)" where
  "apply_eval ev [] t = ([], t, Inr [])"
| "apply_eval ev (CStr s # cs) t =
     (case ev s t of
        (es, t1, Inl e) \<Rightarrow> (es, t1, Inl e)
      | (es, t1, Inr v) \<Rightarrow>
          (case apply_eval ev cs t1 of
             (es', t2, Inl e) \<Rightarrow> (es @ es', t2, Inl e)
           | (es', t2, Inr vs) \<Rightarrow> (es @ es', t2, Inr (v # vs))))"
| "apply_eval ev (c # cs) t =
     (case apply_eval ev cs t of
        (es', t2, Inl e) \<Rightarrow> (es', t2, Inl e)
      | (es', t2, Inr vs) \<Rightarrow> (es', t2, Inr (c # vs)))"

text \<open>
  What \<^verbatim>\<open>explode\<close> makes of one entry: the elements of a list, one missing value for an
  empty list, and the entry itself when it is not a list.
\<close>

fun explode_cell :: "cell \<Rightarrow> cell list" where
  "explode_cell (CList []) = [CNull]"
| "explode_cell (CList (x # xs)) = x # xs"
| "explode_cell c = [c]"

text \<open>
  \<^verbatim>\<open>df.explode(c)\<close>: each row is repeated once per value that its entry in column \<open>c\<close>
  explodes to, with that value in column \<open>c\<close> and every other cell as it was.
\<close>

definition explode :: "string \<Rightarrow> dataframe \<Rightarrow> exn + dataframe" where
  "explode c df =
     (if \<not> distinct (columns df) then Inl (ValueError ''DataFrame columns must be unique.'')
      else case col_index c (columns df) of
             None \<Rightarrow> Inl (KeyError c)
           | Some i \<Rightarrow>
               Inr (df\<lparr>rows := concat (map (\<lambda>r. map (\<lambda>g. r[i := g]) (explode_cell (cell_at r i)))
                                         (rows df))\<rparr>))"

subsection \<open>The analyses\<close>

text \<open>\<^verbatim>\<open>df['year_interval'] = (df['release_year'] // 5) * 5\<close>\<close>

definition with_year_interval :: "dataframe \<Rightarrow> exn + dataframe" where
  "with_year_interval df =
     (case get_column df ''release_year'' of
        Inl e \<Rightarrow> Inl e
      | Inr ys \<Rightarrow>
          (case year_interval_column ys of
             Inl e \<Rightarrow> Inl e
           | Inr iv \<Rightarrow> Inr (set_column ''year_interval'' iv df)))"

text \<open>
  Each analysis is given the notebook's table \<^verbatim>\<open>data\<close> and returns that table as it is
  after the call, the events it produced, and the exception that left it, if any.
  \<^verbatim>\<open>
  def plot_movies_vs_shows(data):
      data['year_interval'] = (data['release_year'] // 5) * 5
      movies_vs_shows_interval = data.groupby(['year_interval', 'type']).size().unstack(fill_value=0)
      movies_vs_shows_long = movies_vs_shows_interval.reset_index().melt(id_vars='year_interval',
          var_name='Type', value_name='Count')
      fig = px.bar(movies_vs_shows_long, ...)
      fig.show()
  \<close>
\<close>

definition plot_movies_vs_shows :: "dataframe \<Rightarrow> dataframe \<times> event list \<times> exn option" where
  "plot_movies_vs_shows df =
     (case with_year_interval df of
        Inl e \<Rightarrow> (df, [], Some e)
      | Inr df1 \<Rightarrow>
          (case count_long df1 ''year_interval'' ''type'' ''Count'' of
             Inl e \<Rightarrow> (df1, [], Some e)
           | Inr long \<Rightarrow> (df1, [BarChart long], None)))"

text \<open>\<^verbatim>\<open>data[data['type'] == 'SHOW'].copy()\<close>: a new frame with the rows whose type is that text.\<close>

definition show_rows :: "dataframe \<Rightarrow> exn + dataframe" where
  "show_rows df =
     (case get_column df ''type'' of
        Inl e \<Rightarrow> Inl e
      | Inr ts \<Rightarrow>
          Inr (df\<lparr>rows := map fst (filter (\<lambda>(r, t). t = CStr ''SHOW'') (zip (rows df) ts))\<rparr>))"

text \<open>
  \<^verbatim>\<open>
  def plot_genre_popularity(data):
      if 'genres' not in data.columns:
          print("No 'genres' column found. Please check the dataset.")
          return
      tv_shows = data[data['type'] == 'SHOW'].copy()
      tv_shows['genres'] = tv_shows['genres'].apply(lambda x: eval(x) if isinstance(x, str) else x)
      tv_shows_exploded = tv_shows.explode('genres')
      tv_shows_exploded['year_interval'] = (tv_shows_exploded['release_year'] // 5) * 5
      genres_popularity = tv_shows_exploded.groupby(['year_interval', 'genres']).size().unstack(fill_value=0)
      genres_popularity_long = genres_popularity.reset_index().melt(id_vars='year_interval',
          var_name='Genre', value_name='Count')
      fig = px.bar(genres_popularity_long, ...)
      fig.show()
  \<close>
\<close>

text \<open>
  The selected rows are a copy, so what an evaluation does to \<^verbatim>\<open>data\<close> does not reach
  \<^verbatim>\<open>tv_shows\<close>; the table returned is \<^verbatim>\<open>data\<close> as the evaluations left it.
\<close>

definition genre_popularity_long :: "dataframe \<Rightarrow> exn + (cell \<times> cell \<times> cell) list" where
  "genre_popularity_long tv_shows =
     (case explode ''genres'' tv_shows of
        Inl e \<Rightarrow> Inl e
      | Inr tv_shows_exploded \<Rightarrow>
          (case with_year_interval tv_shows_exploded of
             Inl e \<Rightarrow> Inl e
           | Inr ex \<Rightarrow> count_long ex ''year_interval'' ''genres'' ''Count''))"

definition plot_genre_popularity ::
  "evaluator \<Rightarrow> dataframe \<Rightarrow> dataframe \<times> event list \<times> exn option" where
  "plot_genre_popularity ev df =
     (if ''genres'' \<notin> set (columns df)
      then (df, [Print (''No '' @ apostrophe @ ''genres'' @ apostrophe
                   @ '' column found. Please check the dataset.'')], None)
      else case show_rows df of
             Inl e \<Rightarrow> (df, [], Some e)
           | Inr tv_shows \<Rightarrow>
               (case get_column tv_shows ''genres'' of
                  Inl e \<Rightarrow> (df, [], Some e)
                | Inr gs \<Rightarrow>
                    (case apply_eval ev gs df of
                       (es, df1, Inl e) \<Rightarrow> (df1, es, Some e)
                     | (es, df1, Inr vs) \<Rightarrow>
                         (case genre_popularity_long (set_column ''genres'' vs tv_shows) of
                            Inl e \<Rightarrow> (df1, es, Some e)
                          | Inr long \<Rightarrow> (df1, es @ [BarChart long], None)))))"

text \<open>
  The text of a group key inside an f-string: text as it is, an integer in decimal. The
  keys of a grouping are never lists or missing values.
\<close>

function dec_nat :: "nat \<Rightarrow> string" where
  "dec_nat n =
     (if n < 10 then [char_of (48 + n)] else dec_nat (n div 10) @ [char_of (48 + n mod 10)])"
  by pat_completeness auto
termination
  by (relation "measure id") auto

fun str_of_cell :: "cell \<Rightarrow> string" where
  "str_of_cell (CStr s) = s"
| "str_of_cell (CInt w) =
     (if sint w < 0 then ''-'' @ dec_nat (nat (- sint w)) else dec_nat (nat (sint w)))"
| "str_of_cell CNull = ''nan''"
| "str_of_cell (CList xs) = ''[...]''"

fun cell_word :: "cell \<Rightarrow> 64 word" where
  "cell_word (CInt w) = w"
| "cell_word c = 0"

text \<open>
  The loop over the regions of the wide table:
  \<^verbatim>\<open>
  for region in genre_region_distribution.index:
      genre_counts = genre_region_distribution.loc[region].reset_index()
      genre_counts.columns = ['Genre', 'Count']
      if genre_counts['Count'].sum() == 0:
          print(f"No genre data available for {region}. Skipping plot.")
          continue
      fig = px.pie(genre_counts, values='Count', names='Genre', ...)
      fig.show()
      time.sleep(1)
  \<close>
  \<^verbatim>\<open>reset_index\<close> on the row of a region raises when the region is itself named
  \<^verbatim>\<open>genres\<close>, the name of the index it inserts. The pause is not modelled.
\<close>

fun pie_charts :: "wide \<Rightarrow> cell list \<Rightarrow> event list \<times> exn option" where
  "pie_charts w [] = ([], None)"
| "pie_charts w (region # rest) =
     (if region = CStr ''genres''
      then ([], Some (ValueError ''cannot insert genres, already exists''))
      else
        (let genre_counts = map (\<lambda>g. (g, w_entry w region g)) (w_labels w);
             shown = (if sum_list (map (cell_word \<circ> snd) genre_counts) = 0
                      then Print (''No genre data available for '' @ str_of_cell region
                             @ ''. Skipping plot.'')
                      else PieChart region genre_counts)
         in case pie_charts w rest of (es, x) \<Rightarrow> (shown # es, x)))"

text \<open>
  \<^verbatim>\<open>
  def plot_genre_distribution_by_region(data):
      if 'genres' not in data.columns or 'viewer_region' not in data.columns:
          print("The 'genres' or 'viewer_region' column is not found in the dataset.")
          return
      # Ensure genres column is properly formatted as lists
      data['genres'] = data['genres'].apply(lambda x: eval(x) if isinstance(x, str) else x)
      data_exploded = data.explode('genres')
      # Group by region and genre
      genre_region_distribution = data_exploded.groupby(['viewer_region', 'genres']).size().unstack(fill_value=0)
      for region in genre_region_distribution.index: ...
  \<close>
  The genre entries are evaluated against \<^verbatim>\<open>data\<close>, and the new entries are assigned to
  \<^verbatim>\<open>data\<close> as the evaluations left it. The assignment to a table whose number of rows an
  evaluation changed (pandas aligns it by row label) is not modelled.
\<close>

definition plot_genre_distribution_by_region ::
  "evaluator \<Rightarrow> dataframe \<Rightarrow> dataframe \<times> event list \<times> exn option" where
  "plot_genre_distribution_by_region ev df =
     (if ''genres'' \<notin> set (columns df) \<or> ''viewer_region'' \<notin> set (columns df)
      then (df, [Print (''The '' @ apostrophe @ ''genres'' @ apostrophe @ '' or '' @ apostrophe
                   @ ''viewer_region'' @ apostrophe
                   @ '' column is not found in the dataset.'')], None)
      else case get_column df ''genres'' of
             Inl e \<Rightarrow> (df, [], Some e)
           | Inr gs \<Rightarrow>
               (case apply_eval ev gs df of
                  (es, df1, Inl e) \<Rightarrow> (df1, es, Some e)
                | (es, df1, Inr vs) \<Rightarrow>
                    if length (rows df1) \<noteq> length vs
                    then (df1, es, Some (NotModelled
                           ''assignment to a table whose rows changed during the evaluation''))
                    else
                      (let df2 = set_column ''genres'' vs df1
                       in case explode ''genres'' df2 of
                            Inl e \<Rightarrow> (df2, es, Some e)
                          | Inr data_exploded \<Rightarrow>
                              (case groupby_size data_exploded ''viewer_region'' ''genres'' of
                                 Inl e \<Rightarrow> (df2, es, Some e)
                               | Inr s \<Rightarrow>
                                   (let w = unstack (CInt 0)
                                              (key_levels data_exploded ''viewer_region'' ''genres'') s
                                    in case pie_charts w (w_index w) of
                                         (ps, x) \<Rightarrow> (df2, es @ ps, x))))))"


subsection \<open>Evaluations used in the examples\<close>

text \<open>
  What Python's \<^verbatim>\<open>eval\<close> does, in the notebook, on the five texts that the examples below
  use: two list literals; \<^verbatim>\<open>data['genres'].tolist()\<close>, which reads the genre column of the
  table; \<^verbatim>\<open>data.__setitem__('release_year', 0)\<close>, which sets a column of the table and
  returns \<^verbatim>\<open>None\<close>; and \<^verbatim>\<open>__import__('os').system('id')\<close>, which runs a shell command and
  returns its exit status. Other texts are not described.
\<close>

definition eval_examples :: evaluator where
  "eval_examples s t =
     (if s = ''['' @ quoted ''Drama'' @ '']'' then ([], t, Inr (CList [CStr ''Drama'']))
      else if s = ''[]'' then ([], t, Inr (CList []))
      else if s = ''data['' @ quoted ''genres'' @ ''].tolist()''
      then ([], t, case get_column t ''genres'' of Inl e \<Rightarrow> Inl e | Inr gs \<Rightarrow> Inr (CList gs))
      else if s = ''data.__setitem__('' @ quoted ''release_year'' @ '', 0)''
      then ([], set_column ''release_year'' (map (\<lambda>r. CInt 0) (rows t)) t, Inr CNull)
      else if s = ''__import__('' @ quoted ''os'' @ '').system('' @ quoted ''id'' @ '')''
      then ([SideEffect s], t, Inr (CInt 0))
      else ([], t, Inl (NotModelled ''evaluation of this text'')))"

section \<open>Properties\<close>

subsection \<open>Interval bucketing\<close>

lemma floor5_bounds: "(k::int) - 4 \<le> k div 5 * 5 \<and> k div 5 * 5 \<le> k"
proof -
  have "k div 5 * 5 = k - k mod 5"
    by (simp add: minus_mod_eq_div_mult)
  moreover have "0 \<le> k mod 5" and "k mod 5 < 5"
    by simp_all
  ultimately show ?thesis
    by linarith
qed

lemma floor5_mono: "(a::int) \<le> b \<Longrightarrow> a div 5 * 5 \<le> b div 5 * 5"
  by (simp add: zdiv_mono1)

lemma sint_word_of_int_64:
  assumes "- (2 ^ 63) \<le> k" and "k < 2 ^ 63"
  shows "sint (word_of_int k :: 64 word) = k"
  using assms by (simp add: sint_sbintrunc' signed_take_bit_int_eq_self)

lemma sint_year_interval:
  assumes "- 9223372036854775805 \<le> sint y"
  shows "sint (year_interval y) = sint y div 5 * 5"
proof -
  have "sint y < 2 ^ 63"
    using sint_lt [of y] by simp
  then have hi: "sint y div 5 * 5 < 2 ^ 63"
    using floor5_bounds [of "sint y"] by linarith
  have "(- 9223372036854775805 :: int) div 5 * 5 \<le> sint y div 5 * 5"
    using assms by (rule floor5_mono)
  then have lo: "- (2 ^ 63) \<le> sint y div 5 * 5"
    by simp
  have "year_interval y = word_of_int (sint y div 5 * 5)"
    by (simp add: year_interval_def)
  then show ?thesis
    by (simp only: sint_word_of_int_64 [OF lo hi])
qed

text \<open>
  C4, as amended. The release years are an \<^verbatim>\<open>int64\<close> column. For every such year \<open>y\<close> from
  \<open>-2^63 + 3\<close> upwards, the bucket is \<open>floor (y / 5) * 5\<close>; on that range bucketing is
  idempotent and monotone; and the buckets of 2021, 1999 and 0 are 2020, 1995 and 0. The
  function is total: it has a value, and no error case, at every \<^verbatim>\<open>int64\<close>.
\<close>

theorem year_interval_bucket:
  "(- 9223372036854775805 \<le> sint y \<longrightarrow>
      sint (year_interval y) = sint y div 5 * 5 \<and>
      year_interval (year_interval y) = year_interval y) \<and>
   (- 9223372036854775805 \<le> sint y1 \<and> sint y1 \<le> sint y2 \<longrightarrow>
      sint (year_interval y1) \<le> sint (year_interval y2)) \<and>
   year_interval 2021 = 2020 \<and> year_interval 1999 = 1995 \<and> year_interval 0 = 0"
proof -
  have idem: "year_interval (year_interval y) = year_interval y"
    if b: "- 9223372036854775805 \<le> sint y"
  proof -
    have "year_interval (year_interval y) = word_of_int (sint (year_interval y) div 5 * 5)"
      by (simp add: year_interval_def)
    also have "\<dots> = word_of_int (sint y div 5 * 5)"
      by (simp add: sint_year_interval [OF b])
    also have "\<dots> = year_interval y"
      by (simp add: year_interval_def)
    finally show ?thesis .
  qed
  have mono: "sint (year_interval y1) \<le> sint (year_interval y2)"
    if b: "- 9223372036854775805 \<le> sint y1" and le: "sint y1 \<le> sint y2"
  proof -
    have b2: "- 9223372036854775805 \<le> sint y2"
      using b le by linarith
    show ?thesis
      using floor5_mono [OF le] by (simp add: sint_year_interval [OF b] sint_year_interval [OF b2])
  qed
  have points: "year_interval 2021 = 2020 \<and> year_interval 1999 = 1995 \<and> year_interval 0 = 0"
    by (simp add: year_interval_def)
  show ?thesis
    using idem mono points sint_year_interval by blast
qed

theorem year_interval_bucket_witness:
  "sint (year_interval 2019) = 2015 \<and> year_interval (year_interval 2019) = year_interval 2019 \<and>
   sint (year_interval (- 3)) \<le> sint (year_interval 2019) \<and> sint (year_interval (- 3)) = - 5"
proof -
  have a: "- 9223372036854775805 \<le> sint (2019 :: 64 word)"
    by simp
  have b: "- 9223372036854775805 \<le> sint (- 3 :: 64 word) \<and> sint (- 3 :: 64 word) \<le> sint (2019 :: 64 word)"
    by simp
  have c: "sint (- 3 :: 64 word) div 5 * 5 = - 5" "sint (2019 :: 64 word) div 5 * 5 = 2015"
    by simp_all
  show ?thesis
    using year_interval_bucket [of 2019 "- 3" 2019] year_interval_bucket [of "- 3" 0 0] a b c
    by simp
qed

text \<open>
  C4 as stated fails at the smallest \<^verbatim>\<open>int64\<close>: the product by 5 wraps, so the bucket of
  \<open>-2^63\<close> is \<open>2^63 - 2\<close>, not \<open>floor (y / 5) * 5\<close>, it is larger than the bucket of the
  larger year 0, and bucketing it again gives another value.
\<close>

theorem year_interval_counterexample:
  "sint (year_interval (- 9223372036854775808)) = 9223372036854775806 \<and>
   sint (- 9223372036854775808 :: 64 word) div 5 * 5 = - 9223372036854775810 \<and>
   sint (- 9223372036854775808 :: 64 word) \<le> sint (0 :: 64 word) \<and>
   \<not> sint (year_interval (- 9223372036854775808)) \<le> sint (year_interval 0) \<and>
   year_interval (year_interval (- 9223372036854775808)) \<noteq> year_interval (- 9223372036854775808)"
  by (simp add: year_interval_def)

subsection \<open>The loader and the merge cell\<close>

text \<open>
  C7. Whatever \<^verbatim>\<open>read_csv\<close> does at a location, \<open>load_dataset\<close> lets no exception out: it
  returns the parsed frame and prints nothing, or, when the read raised, prints one
  diagnostic line with the exception's text and returns \<^verbatim>\<open>None\<close>. (The read's failures are
  exceptions of class \<^verbatim>\<open>Exception\<close>, which is what the handler catches.)
\<close>

theorem load_dataset_never_raises:
  "snd (snd (load_dataset read_csv url)) = None \<and>
   (case read_csv url of
      Inr df \<Rightarrow> load_dataset read_csv url = ([], Some df, None)
    | Inl e \<Rightarrow>
        load_dataset read_csv url
          = ([Print (''Error loading dataset: '' @ exn_text e)], None, None))"
  by (simp add: load_dataset_def split: sum.split)

theorem load_dataset_never_raises_witness:
  "load_dataset (\<lambda>u. Inl (OtherException ''HTTP Error 404: Not Found'')) ''x.csv''
     = ([Print ''Error loading dataset: HTTP Error 404: Not Found''], None, None) \<and>
   load_dataset (\<lambda>u. Inr \<lparr>columns = [''id''], rows = [[CInt 1]]\<rparr>) ''x.csv''
     = ([], Some \<lparr>columns = [''id''], rows = [[CInt 1]]\<rparr>, None)"
  using load_dataset_never_raises [of "\<lambda>u. Inl (OtherException ''HTTP Error 404: Not Found'')" "''x.csv''"]
    load_dataset_never_raises [of "\<lambda>u. Inr \<lparr>columns = [''id''], rows = [[CInt 1]]\<rparr>" "''x.csv''"]
  by simp

text \<open>
  C8. When either loaded dataset is \<^verbatim>\<open>None\<close>, the merge cell takes its failure branch: it
  prints the diagnostic, raises nothing, and leaves every name as it was, so no frame is
  renamed and \<^verbatim>\<open>data\<close> is not assigned.
\<close>

theorem merge_cell_skips_on_null:
  assumes "netflix_df nb = None \<or> viewership_df nb = None"
  shows "merge_cell nb = (nb, [Print ''Failed to load or merge datasets''], None)"
  using assms by (auto simp: merge_cell_def split: option.splits)

theorem merge_cell_skips_on_null_witness:
  "merge_cell \<lparr>netflix_df = Some \<lparr>columns = [''id''], rows = [[CInt 1]]\<rparr>,
                viewership_df = None, data = None\<rparr>
     = (\<lparr>netflix_df = Some \<lparr>columns = [''id''], rows = [[CInt 1]]\<rparr>,
          viewership_df = None, data = None\<rparr>,
        [Print ''Failed to load or merge datasets''], None)"
  using merge_cell_skips_on_null
    [of "\<lparr>netflix_df = Some \<lparr>columns = [''id''], rows = [[CInt 1]]\<rparr>,
           viewership_df = None, data = None\<rparr>"]
  by simp

subsection \<open>The merge\<close>

lemma col_index_Some_iff: "(\<exists>i. col_index c cs = Some i) \<longleftrightarrow> c \<in> set cs"
  by (induction cs) auto



lemma length_filter_key:
  "length (filter (\<lambda>r. f r = k) rs) = count_list (map f rs) k"
  by (induction rs) auto

lemma length_concat_map: "length (concat (map f xs)) = sum_list (map (\<lambda>x. length (f x)) xs)"
  by (induction xs) auto

lemma count_list_distinct: "distinct ys \<Longrightarrow> count_list ys k = (if k \<in> set ys then 1 else 0)"
  by (induction ys) auto

lemma sum_indicator_filter:
  "sum_list (map (\<lambda>k. if P k then 1 else 0) xs) = length (filter P xs)"
  by (induction xs) auto

lemma card_inter_distinct:
  assumes "distinct xs"
  shows "length (filter (\<lambda>k. k \<in> set ys) xs) = card (set xs \<inter> set ys)"
proof -
  have "set (filter (\<lambda>k. k \<in> set ys) xs) = set xs \<inter> set ys"
    by auto
  moreover have "distinct (filter (\<lambda>k. k \<in> set ys) xs)"
    using assms by simp
  ultimately show ?thesis
    by (metis distinct_card)
qed

lemma length_filter_neq_once:
  "count_list cs k = 1 \<Longrightarrow> length (filter (\<lambda>c. c \<noteq> k) cs) = length cs - 1"
proof (induction cs)
  case Nil
  then show ?case by simp
next
  case (Cons c cs)
  show ?case
  proof (cases "c = k")
    case True
    with Cons.prems have "count_list cs k = 0" by simp
    then have "k \<notin> set cs" by (simp add: count_list_0_iff)
    then have "filter (\<lambda>c. c \<noteq> k) cs = cs" by (auto simp: filter_id_conv)
    with True show ?thesis by simp
  next
    case False
    with Cons.prems have c1: "count_list cs k = 1" by simp
    then have "k \<in> set cs" by (metis count_list_0_iff zero_neq_one)
    then have "0 < length cs" by (cases cs) auto
    with False Cons.IH [OF c1] show ?thesis by simp
  qed
qed

text \<open>The rows of a successful merge, whatever the keys: the general row count.\<close>

lemma pd_merge_Inr:
  assumes "pd_merge left right key = Inr d"
  obtains i j where
    "col_index key (columns left) = Some i" "col_index key (columns right) = Some j"
    "count_list (columns left) key = 1" "count_list (columns right) key = 1"
    "columns d = merged_columns key (columns left) (columns right)"
    "rows d = concat (map (\<lambda>l. map (\<lambda>r. l @ drop_at j r)
                 (filter (\<lambda>r. cell_at r j = cell_at l i) (rows right))) (rows left))"
proof -
  from assms obtain i j where
    i: "col_index key (columns left) = Some i" and j: "col_index key (columns right) = Some j"
    by (auto simp: pd_merge_def split: option.splits)
  have "key \<in> set (columns left)" "key \<in> set (columns right)"
    using i j col_index_Some_iff by blast+
  then have "count_list (columns left) key \<noteq> 0" "count_list (columns right) key \<noteq> 0"
    by (simp_all add: count_list_0_iff)
  then have pos: "0 < count_list (columns left) key" "0 < count_list (columns right) key"
    by simp_all
  from assms i j have le: "\<not> 1 < count_list (columns left) key" "\<not> 1 < count_list (columns right) key"
    by (auto simp: pd_merge_def Let_def split: if_splits)
  from assms i j have
    "columns d = merged_columns key (columns left) (columns right)"
    "rows d = concat (map (\<lambda>l. map (\<lambda>r. l @ drop_at j r)
                 (filter (\<lambda>r. cell_at r j = cell_at l i) (rows right))) (rows left))"
    by (auto simp: pd_merge_def Let_def split: if_splits)
  with that i j pos le show ?thesis
    by force
qed

text \<open>When the merge returns: the conditions under which none of its errors is raised.\<close>

lemma pd_merge_returns:
  assumes "key \<in> set (columns left)" and "key \<in> set (columns right)"
    and "distinct (columns left)" and "distinct (columns right)"
    and "get_column left key = Inr lk" and "get_column right key = Inr rk"
    and "list_ex is_text_cell lk = list_ex is_text_cell rk"
    and "\<not> list_ex is_list_cell (lk @ rk)"
    and "distinct (merged_columns key (columns left) (columns right))"
  shows "\<exists>d. pd_merge left right key = Inr d"
proof -
  obtain i j where i: "col_index key (columns left) = Some i"
    and j: "col_index key (columns right) = Some j"
    using assms(1,2) col_index_Some_iff by blast
  have lk: "lk = map (\<lambda>r. cell_at r i) (rows left)" and rk: "rk = map (\<lambda>r. cell_at r j) (rows right)"
    using assms(5,6) i j by (simp_all add: get_column_def)
  have once: "\<not> 1 < count_list (columns left) key" "\<not> 1 < count_list (columns right) key"
    using assms(3,4) by (simp_all add: count_list_distinct)
  show ?thesis
    using i j once assms(7-9)
    by (simp add: pd_merge_def Let_def lk [symmetric] rk [symmetric])
qed

text \<open>With both frames loaded and the merge returning, the cell binds \<^verbatim>\<open>data\<close> to the merge.\<close>

lemma merge_cell_assigns_data:
  assumes "netflix_df nb = Some n" and "viewership_df nb = Some v"
    and "pd_merge (rename_id n) (rename_id v) ''show_id'' = Inr d"
  shows "data (fst (merge_cell nb)) = Some d \<and> snd (snd (merge_cell nb)) = None"
  using assms by (simp add: merge_cell_def)

lemma pd_merge_row_count:
  assumes "pd_merge left right key = Inr d"
    and "get_column left key = Inr lk" and "get_column right key = Inr rk"
  shows "length (rows d) = sum_list (map (count_list rk) lk)"
proof -
  from assms(1) obtain i j where
    i: "col_index key (columns left) = Some i" and j: "col_index key (columns right) = Some j" and
    r: "rows d = concat (map (\<lambda>l. map (\<lambda>r. l @ drop_at j r)
                 (filter (\<lambda>r. cell_at r j = cell_at l i) (rows right))) (rows left))"
    by (rule pd_merge_Inr)
  have lk: "lk = map (\<lambda>r. cell_at r i) (rows left)" and rk: "rk = map (\<lambda>r. cell_at r j) (rows right)"
    using assms(2,3) i j by (simp_all add: get_column_def)
  show ?thesis
    by (simp add: r lk rk length_concat_map length_filter_key comp_def)
qed

text \<open>
  C2, as amended. When the key values are unique within each of the two frames and the
  merge returns a frame, its row count is the number of key values the frames share,
  which is at most the smaller of the two input row counts; its labels are the left
  labels followed by the right labels without the key (suffixed where they collide), and
  every output row is a left row followed by the cells, without the key, of a right row
  with the same key.
\<close>

theorem pd_merge_unique_keys:
  assumes "pd_merge left right key = Inr d"
    and "get_column left key = Inr lk" and "get_column right key = Inr rk"
    and "distinct lk" and "distinct rk"
  shows "length (rows d) = card (set lk \<inter> set rk) \<and>
         length (rows d) \<le> min (length (rows left)) (length (rows right)) \<and>
         columns d = merged_columns key (columns left) (columns right) \<and>
         length (columns d) = length (columns left) + length (columns right) - 1 \<and>
         (\<exists>i j. col_index key (columns left) = Some i \<and>
                col_index key (columns right) = Some j \<and>
                (\<forall>row \<in> set (rows d). \<exists>l \<in> set (rows left). \<exists>r \<in> set (rows right).
                    cell_at l i = cell_at r j \<and> row = l @ drop_at j r))"
proof -
  from assms(1) obtain i j where
    i: "col_index key (columns left) = Some i" and j: "col_index key (columns right) = Some j" and
    once: "count_list (columns right) key = 1" and
    c: "columns d = merged_columns key (columns left) (columns right)" and
    r: "rows d = concat (map (\<lambda>l. map (\<lambda>r. l @ drop_at j r)
                 (filter (\<lambda>r. cell_at r j = cell_at l i) (rows right))) (rows left))"
    by (rule pd_merge_Inr)
  have lk: "lk = map (\<lambda>r. cell_at r i) (rows left)" and rk: "rk = map (\<lambda>r. cell_at r j) (rows right)"
    using assms(2,3) i j by (simp_all add: get_column_def)
  have "length (rows d) = sum_list (map (count_list rk) lk)"
    using assms(1-3) by (rule pd_merge_row_count)
  also have "\<dots> = sum_list (map (\<lambda>k. if k \<in> set rk then 1 else 0) lk)"
  proof -
    have "count_list rk = (\<lambda>k. if k \<in> set rk then 1 else 0)"
      using count_list_distinct [OF assms(5)] by (simp add: fun_eq_iff)
    then show ?thesis
      by simp
  qed
  also have "\<dots> = card (set lk \<inter> set rk)"
    using assms(4) by (simp only: sum_indicator_filter card_inter_distinct)
  finally have n: "length (rows d) = card (set lk \<inter> set rk)" .
  have "card (set lk \<inter> set rk) \<le> card (set lk)" "card (set lk \<inter> set rk) \<le> card (set rk)"
    by (simp_all add: card_mono)
  moreover have "card (set lk) \<le> length (rows left)" "card (set rk) \<le> length (rows right)"
    using card_length [of lk] card_length [of rk] by (simp_all add: lk rk)
  ultimately have m: "length (rows d) \<le> min (length (rows left)) (length (rows right))"
    using n by simp
  have "key \<in> set (columns right)"
    using j col_index_Some_iff by blast
  then have "0 < length (columns right)"
    by (cases "columns right") auto
  moreover have "length (columns d) = length (columns left) + (length (columns right) - 1)"
    by (simp add: c merged_columns_def length_filter_neq_once [OF once])
  ultimately have w: "length (columns d) = length (columns left) + length (columns right) - 1"
    by linarith
  have "\<forall>row \<in> set (rows d). \<exists>l \<in> set (rows left). \<exists>r \<in> set (rows right).
          cell_at l i = cell_at r j \<and> row = l @ drop_at j r"
  proof
    fix row
    assume "row \<in> set (rows d)"
    then obtain l r' where "l \<in> set (rows left)" "r' \<in> set (rows right)"
      "cell_at r' j = cell_at l i" "row = l @ drop_at j r'"
      by (auto simp: r)
    then show "\<exists>l \<in> set (rows left). \<exists>r \<in> set (rows right).
          cell_at l i = cell_at r j \<and> row = l @ drop_at j r"
      by metis
  qed
  with n m c w i j show ?thesis
    by blast
qed

theorem pd_merge_unique_keys_witness:
  "pd_merge
     \<lparr>columns = [''show_id'', ''type''], rows = [[CInt 1, CStr ''SHOW''], [CInt 2, CStr ''MOVIE'']]\<rparr>
     \<lparr>columns = [''show_id'', ''viewer_region''], rows = [[CInt 1, CStr ''US'']]\<rparr>
     ''show_id''
     = Inr \<lparr>columns = [''show_id'', ''type'', ''viewer_region''],
            rows = [[CInt 1, CStr ''SHOW'', CStr ''US'']]\<rparr> \<and>
   length [[CInt 1, CStr ''SHOW'', CStr ''US'']] = card (set [CInt 1, CInt 2] \<inter> set [CInt 1]) \<and>
   length [[CInt 1, CStr ''SHOW'', CStr ''US'']] \<le> min (2::nat) 1"
proof -
  let ?L = "\<lparr>columns = [''show_id'', ''type''],
             rows = [[CInt 1, CStr ''SHOW''], [CInt 2, CStr ''MOVIE'']]\<rparr>"
  let ?R = "\<lparr>columns = [''show_id'', ''viewer_region''], rows = [[CInt 1, CStr ''US'']]\<rparr>"
  let ?D = "\<lparr>columns = [''show_id'', ''type'', ''viewer_region''],
             rows = [[CInt 1, CStr ''SHOW'', CStr ''US'']]\<rparr>"
  have m: "pd_merge ?L ?R ''show_id'' = Inr ?D"
    by (simp add: pd_merge_def merged_columns_def cell_at_def drop_at_def)
  have l: "get_column ?L ''show_id'' = Inr [CInt 1, CInt 2]"
    by (simp add: get_column_def cell_at_def)
  have r: "get_column ?R ''show_id'' = Inr [CInt 1]"
    by (simp add: get_column_def cell_at_def)
  have dl: "distinct [CInt 1, CInt 2 :: cell]" and dr: "distinct [CInt 1 :: cell]"
    by simp_all
  show ?thesis
    using pd_merge_unique_keys [OF m l r dl dr] m by simp
qed

text \<open>
  C2 as stated fails when a key value repeats: one title with two viewership rows merges
  into two rows, more than the one row of the smaller input and more than the one key
  value the inputs share.
\<close>

theorem pd_merge_counterexample:
  "pd_merge
     \<lparr>columns = [''show_id'', ''type''], rows = [[CInt 1, CStr ''SHOW'']]\<rparr>
     \<lparr>columns = [''show_id'', ''viewer_region''],
      rows = [[CInt 1, CStr ''US''], [CInt 1, CStr ''IN'']]\<rparr>
     ''show_id''
     = Inr \<lparr>columns = [''show_id'', ''type'', ''viewer_region''],
            rows = [[CInt 1, CStr ''SHOW'', CStr ''US''], [CInt 1, CStr ''SHOW'', CStr ''IN'']]\<rparr> \<and>
   length [[CInt 1, CStr ''SHOW'', CStr ''US''], [CInt 1, CStr ''SHOW'', CStr ''IN'']]
     > min (length [[CInt 1, CStr ''SHOW'']]) (length [[CInt 1, CStr ''US''], [CInt 1, CStr ''IN'']]) \<and>
   length [[CInt 1, CStr ''SHOW'', CStr ''US''], [CInt 1, CStr ''SHOW'', CStr ''IN'']]
     \<noteq> card (set [CInt 1 :: cell] \<inter> set [CInt 1, CInt 1])"
  by (simp add: pd_merge_def merged_columns_def cell_at_def drop_at_def)

subsection \<open>List-field explosion\<close>

lemma length_explode_cell:
  "length (explode_cell c) = (case c of CList xs \<Rightarrow> max 1 (length xs) | _ \<Rightarrow> 1)"
  by (cases c rule: explode_cell.cases) simp_all

lemma explode_cell_nonempty:
  "c \<noteq> CList [] \<Longrightarrow> length (explode_cell c) = (case c of CList xs \<Rightarrow> length xs | _ \<Rightarrow> 1)"
  by (cases c rule: explode_cell.cases) simp_all

lemma sum_list_cong_set: "(\<And>x. x \<in> set xs \<Longrightarrow> f x = g x) \<Longrightarrow> sum_list (map f xs) = sum_list (map g xs)"
  by (induction xs) auto

text \<open>
  C3, as amended. On a frame with distinct labels, exploding column \<open>c\<close> keeps the labels
  and replaces each row by one copy per element of its sequence, in order, each copy
  equal to the source row except in column \<open>c\<close>, which holds the element. A row whose
  sequence is empty is kept once, with a missing value in column \<open>c\<close>. So the output row
  count is the sum over the input rows of \<open>max 1 (length of the sequence)\<close>, and it is
  the sum of the lengths when no sequence is empty.
\<close>

theorem explode_row_count:
  assumes "distinct (columns df)" and "col_index c (columns df) = Some i"
  shows "\<exists>d. explode c df = Inr d \<and> columns d = columns df \<and>
           rows d = concat (map (\<lambda>r. map (\<lambda>g. r[i := g])
                              (case cell_at r i of
                                 CList [] \<Rightarrow> [CNull] | CList xs \<Rightarrow> xs | v \<Rightarrow> [v]))
                            (rows df)) \<and>
           length (rows d)
             = (\<Sum>r\<leftarrow>rows df. case cell_at r i of CList xs \<Rightarrow> max 1 (length xs) | _ \<Rightarrow> 1) \<and>
           (list_all (\<lambda>r. cell_at r i \<noteq> CList []) (rows df) \<longrightarrow>
              length (rows d)
                = (\<Sum>r\<leftarrow>rows df. case cell_at r i of CList xs \<Rightarrow> length xs | _ \<Rightarrow> 1))"
proof -
  let ?d = "df\<lparr>rows := concat (map (\<lambda>r. map (\<lambda>g. r[i := g]) (explode_cell (cell_at r i)))
                               (rows df))\<rparr>"
  have e: "explode c df = Inr ?d"
    using assms by (simp add: explode_def)
  have shape: "explode_cell v = (case v of CList [] \<Rightarrow> [CNull] | CList xs \<Rightarrow> xs | v \<Rightarrow> [v])" for v
    by (cases v rule: explode_cell.cases) simp_all
  have r: "rows ?d = concat (map (\<lambda>r. map (\<lambda>g. r[i := g])
                              (case cell_at r i of
                                 CList [] \<Rightarrow> [CNull] | CList xs \<Rightarrow> xs | v \<Rightarrow> [v]))
                            (rows df))"
    by (simp add: shape)
  have n: "length (rows ?d)
             = (\<Sum>r\<leftarrow>rows df. case cell_at r i of CList xs \<Rightarrow> max 1 (length xs) | _ \<Rightarrow> 1)"
    by (simp add: length_concat_map length_explode_cell comp_def)
  have m: "length (rows ?d)
             = (\<Sum>r\<leftarrow>rows df. case cell_at r i of CList xs \<Rightarrow> length xs | _ \<Rightarrow> 1)"
    if "list_all (\<lambda>r. cell_at r i \<noteq> CList []) (rows df)"
  proof -
    have "length (rows ?d) = (\<Sum>r\<leftarrow>rows df. length (explode_cell (cell_at r i)))"
      by (simp add: length_concat_map comp_def)
    also have "\<dots> = (\<Sum>r\<leftarrow>rows df. case cell_at r i of CList xs \<Rightarrow> length xs | _ \<Rightarrow> 1)"
      using that by (intro sum_list_cong_set explode_cell_nonempty) (simp add: list_all_iff)
    finally show ?thesis .
  qed
  have "columns ?d = columns df"
    by simp
  with e r n m show ?thesis
    by blast
qed

theorem explode_row_count_witness:
  "explode ''genres''
     \<lparr>columns = [''show_id'', ''genres'', ''viewer_region''],
      rows = [[CInt 1, CList [CStr ''Drama'', CStr ''Comedy''], CStr ''US''],
              [CInt 2, CList [CStr ''Crime''], CStr ''IN'']]\<rparr>
     = Inr \<lparr>columns = [''show_id'', ''genres'', ''viewer_region''],
            rows = [[CInt 1, CStr ''Drama'', CStr ''US''],
                    [CInt 1, CStr ''Comedy'', CStr ''US''],
                    [CInt 2, CStr ''Crime'', CStr ''IN'']]\<rparr> \<and>
   length [[CInt 1, CStr ''Drama'', CStr ''US''], [CInt 1, CStr ''Comedy'', CStr ''US''],
           [CInt 2, CStr ''Crime'', CStr ''IN'']]
     = length [CStr ''Drama'', CStr ''Comedy''] + length [CStr ''Crime'']"
proof -
  let ?df = "\<lparr>columns = [''show_id'', ''genres'', ''viewer_region''],
      rows = [[CInt 1, CList [CStr ''Drama'', CStr ''Comedy''], CStr ''US''],
              [CInt 2, CList [CStr ''Crime''], CStr ''IN'']]\<rparr>"
  have a: "distinct (columns ?df)"
    by simp
  have b: "col_index ''genres'' (columns ?df) = Some 1"
    by simp
  show ?thesis
    using explode_row_count [OF a b] by (auto simp: cell_at_def)
qed

text \<open>
  C3 as stated fails for an empty sequence: the row does not disappear, it is kept once
  with a missing genre, so one row comes out where the lengths sum to zero.
\<close>

theorem explode_empty_counterexample:
  "explode ''genres'' \<lparr>columns = [''show_id'', ''genres''], rows = [[CInt 7, CList []]]\<rparr>
     = Inr \<lparr>columns = [''show_id'', ''genres''], rows = [[CInt 7, CNull]]\<rparr> \<and>
   length [[CInt 7, CNull]] \<noteq> sum_list (map length [[] :: cell list])"
  by (simp add: explode_def cell_at_def)

subsection \<open>Aggregation\<close>

lemma set_insort_cell: "set (insort_cell k xs) = insert k (set xs)"
  by (induction xs) auto

lemma distinct_insort_cell: "distinct (insort_cell k xs) \<longleftrightarrow> k \<notin> set xs \<and> distinct xs"
  by (induction xs) (auto simp: set_insort_cell)

lemma set_foldr_insort: "set (foldr insort_cell xs []) = set xs"
  by (induction xs) (simp_all add: set_insort_cell)

lemma distinct_foldr_insort: "distinct xs \<Longrightarrow> distinct (foldr insort_cell xs [])"
  by (induction xs) (simp_all add: distinct_insort_cell set_foldr_insort)

lemma set_sort_unique: "set (sort_unique ks) = set ks"
  by (simp add: sort_unique_def set_foldr_insort)

lemma distinct_sort_unique: "distinct (sort_unique ks)"
  by (simp add: sort_unique_def distinct_foldr_insort)

lemma set_insort_pair: "set (insort_pair k xs) = insert k (set xs)"
  by (induction xs) auto

lemma set_sort_pairs: "set (sort_pairs ks) = set ks"
  by (induction ks) (simp_all add: sort_pairs_def set_insort_pair)

lemma set_level_order: "set (level_order level observed) = set observed"
  by (simp add: level_order_def set_sort_unique)

lemma distinct_level_order: "distinct (level_order level observed)"
  by (simp add: level_order_def distinct_sort_unique)

text \<open>The index and the labels of an unstacked series are its observed keys, each once.\<close>

lemma unstack_keys:
  "set (w_index (unstack fill levels s)) = fst ` fst ` set s"
  "set (w_labels (unstack fill levels s)) = snd ` fst ` set s"
  "distinct (w_index (unstack fill levels s))"
  "distinct (w_labels (unstack fill levels s))"
  by (simp_all add: unstack_def set_level_order distinct_level_order set_sort_pairs image_comp)

lemma length_grid: "length (concat (map (\<lambda>b. map (f b) as) bs)) = length as * length bs"
  by (induction bs) simp_all

lemma grid_pairs:
  "map (\<lambda>(a, b, v). (a, b)) (concat (map (\<lambda>b. map (\<lambda>a. (a, b, e a b)) as) bs))
     = map prod.swap (List.product bs as)"
  by (induction bs) (simp_all add: comp_def)

text \<open>The long form of any unstacked series: one row per (index value, label).\<close>

lemma long_form_grid:
  assumes "melt vn (unstack fill levels s) = Inr long"
  shows "length long = card (fst ` fst ` set s) * card (snd ` fst ` set s)"
    and "distinct (map (\<lambda>(a, b, v). (a, b)) long)"
    and "set (map (\<lambda>(a, b, v). (a, b)) long) = (fst ` fst ` set s) \<times> (snd ` fst ` set s)"
    and "\<forall>(a, b, v) \<in> set long. v = (case map_of s (a, b) of Some v \<Rightarrow> v | None \<Rightarrow> fill)"
proof -
  let ?A = "w_index (unstack fill levels s)" and ?B = "w_labels (unstack fill levels s)"
  let ?e = "\<lambda>a b. case map_of s (a, b) of Some v \<Rightarrow> v | None \<Rightarrow> fill"
  have e: "w_entry (unstack fill levels s) = ?e"
    by (simp add: unstack_def)
  have l: "long = concat (map (\<lambda>b. map (\<lambda>a. (a, b, ?e a b)) ?A) ?B)"
    using assms by (simp add: melt_def e split: if_splits)
  have sA: "set ?A = fst ` fst ` set s" and sB: "set ?B = snd ` fst ` set s"
    and dA: "distinct ?A" and dB: "distinct ?B"
    by (rule unstack_keys)+
  have "length ?A = card (fst ` fst ` set s)" "length ?B = card (snd ` fst ` set s)"
    using distinct_card [OF dA] distinct_card [OF dB] by (simp_all add: sA sB)
  then show "length long = card (fst ` fst ` set s) * card (snd ` fst ` set s)"
    by (simp add: l length_grid)
  have p: "map (\<lambda>(a, b, v). (a, b)) long = map prod.swap (List.product ?B ?A)"
    unfolding l by (rule grid_pairs)
  show "distinct (map (\<lambda>(a, b, v). (a, b)) long)"
    unfolding p using dA dB by (simp add: distinct_map distinct_product)
  have "set (map prod.swap (List.product ?B ?A)) = set ?A \<times> set ?B"
    by auto
  then show "set (map (\<lambda>(a, b, v). (a, b)) long) = (fst ` fst ` set s) \<times> (snd ` fst ` set s)"
    by (simp only: p sA sB)
  show "\<forall>(a, b, v) \<in> set long. v = ?e a b"
    unfolding l by auto
qed

lemma keys_size_series: "fst ` set (size_series ks) = set ks"
  by (auto simp: size_series_def image_iff)

lemma map_of_size_series:
  "map_of (size_series ks) k
     = (if k \<in> set ks then Some (CInt (of_nat (count_list ks k))) else None)"
  by (simp add: size_series_def map_of_map_restrict restrict_map_def)

lemma map_exn_keys:
  assumes "map_exn f xs = Inr ys" and "\<And>x y. f x = Inr y \<Longrightarrow> fst y = x"
  shows "map fst ys = xs"
  using assms
proof (induction xs arbitrary: ys)
  case Nil
  then show ?case by simp
next
  case (Cons x xs)
  from Cons.prems(1) obtain y ys' where
    y: "f x = Inr y" and t: "map_exn f xs = Inr ys'" and e: "ys = y # ys'"
    by (auto split: sum.splits)
  show ?case
    using Cons.IH [OF t Cons.prems(2)] Cons.prems(2) [OF y] e by simp
qed

lemma length_get_column: "get_column df c = Inr xs \<Longrightarrow> length xs = length (rows df)"
  by (auto simp: get_column_def split: option.splits)

lemma map_fst_filter_zip:
  assumes "length xs \<le> length vs" and "\<And>k v. Q (k, v) = P k"
  shows "map fst (filter Q (zip xs vs)) = filter P xs"
  using assms(1)
proof (induction xs arbitrary: vs)
  case Nil
  then show ?case by simp
next
  case (Cons x xs)
  then obtain v vs' where "vs = v # vs'"
    by (cases vs) auto
  with Cons show ?case
    by (simp add: assms(2))
qed

lemma keys_groupby_sum:
  assumes "groupby_sum df d1 d2 c = Inr s" and "group_keys df d1 d2 = Inr ks"
  shows "fst ` set s = set ks"
proof -
  from assms(1) obtain xs ys vs where
    x: "get_column df d1 = Inr xs" and y: "get_column df d2 = Inr ys" and
    v: "get_column df c = Inr vs"
    by (auto simp: groupby_sum_def split: sum.splits)
  let ?kept = "filter (\<lambda>((a, b), v). a \<noteq> CNull \<and> b \<noteq> CNull) (zip (zip xs ys) vs)"
  let ?f = "\<lambda>k. case sum_cells (map snd (filter (\<lambda>(k', v). k' = k) ?kept)) of
                  Inl e \<Rightarrow> Inl e | Inr t \<Rightarrow> Inr (k, CInt t)"
  from assms(1) x y v have m: "map_exn ?f (remdups (map fst ?kept)) = Inr s"
    by (auto simp: groupby_sum_def Let_def split: if_splits)
  have "map fst s = remdups (map fst ?kept)"
    using m by (rule map_exn_keys) (auto split: sum.splits)
  moreover have "ks = filter (\<lambda>(a, b). a \<noteq> CNull \<and> b \<noteq> CNull) (zip xs ys)"
    using assms(2) x y by (auto simp: group_keys_def split: if_splits)
  moreover have "map fst ?kept = filter (\<lambda>(a, b). a \<noteq> CNull \<and> b \<noteq> CNull) (zip xs ys)"
  proof (rule map_fst_filter_zip)
    show "length (zip xs ys) \<le> length vs"
      using length_get_column [OF x] length_get_column [OF y] length_get_column [OF v] by simp
  qed auto
  ultimately have "set (map fst s) = set ks"
    by simp
  then show ?thesis
    by simp
qed

text \<open>The keys a grouping keeps are the pairs of the two columns without missing values.\<close>

lemma group_keys_Inr:
  assumes "group_keys df d1 d2 = Inr ks"
  shows "\<exists>xs ys. get_column df d1 = Inr xs \<and> get_column df d2 = Inr ys \<and>
           ks = filter (\<lambda>(a, b). a \<noteq> CNull \<and> b \<noteq> CNull) (zip xs ys)"
  using assms by (auto simp: group_keys_def split: sum.splits if_splits)

lemma count_long_Inr:
  assumes "count_long df d1 d2 vn = Inr long" and "group_keys df d1 d2 = Inr ks"
  shows "melt vn (unstack (CInt 0) (key_levels df d1 d2) (size_series ks)) = Inr long"
  using assms
  by (auto simp: count_long_def groupby_size_def reset_index_def split: sum.splits if_splits)

text \<open>When a count aggregation returns: no label collides with an inserted column name.\<close>

lemma count_long_returns:
  assumes "group_keys df d1 d2 = Inr ks"
    and "CStr d1 \<notin> snd ` set ks" and "CStr vn \<notin> snd ` set ks"
  shows "\<exists>long. count_long df d1 d2 vn = Inr long"
proof -
  have "snd ` fst ` set (size_series ks) = snd ` set ks"
    by (simp add: keys_size_series)
  then have "set (w_labels (unstack (CInt 0) (key_levels df d1 d2) (size_series ks))) = snd ` set ks"
    by (simp add: unstack_keys)
  then show ?thesis
    using assms by (simp add: count_long_def groupby_size_def reset_index_def melt_def)
qed

lemma sum_long_Inr:
  assumes "sum_long df d1 d2 c vn = Inr long"
  obtains s where "groupby_sum df d1 d2 c = Inr s"
    "melt vn (unstack CNull (key_levels df d1 d2) s) = Inr long"
  using assms
  by (auto simp: sum_long_def reset_index_def split: sum.splits if_splits)

text \<open>
  C5, as amended. Let \<open>ks\<close> be the key pairs of the rows a grouping keeps, that is, the
  rows in which neither dimension is missing. Whenever a two-dimensional aggregation
  returns its long-form table, the table has exactly one row for every pair of a first
  key and a second key occurring in \<open>ks\<close>, so (number of distinct first keys) times
  (number of distinct second keys) rows. In the count aggregations the value of a row is
  the number of kept rows with that pair, and a pair that no kept row has is there with
  the value zero.
\<close>

theorem aggregation_long_form:
  assumes "group_keys df d1 d2 = Inr ks"
  shows "(count_long df d1 d2 vn = Inr long \<longrightarrow>
            length long = card (fst ` set ks) * card (snd ` set ks) \<and>
            distinct (map (\<lambda>(a, b, v). (a, b)) long) \<and>
            set (map (\<lambda>(a, b, v). (a, b)) long) = (fst ` set ks) \<times> (snd ` set ks) \<and>
            (\<forall>(a, b, v) \<in> set long.
                v = CInt (of_nat (count_list ks (a, b))) \<and> ((a, b) \<notin> set ks \<longrightarrow> v = CInt 0))) \<and>
         (sum_long df d1 d2 c vn' = Inr long' \<longrightarrow>
            length long' = card (fst ` set ks) * card (snd ` set ks) \<and>
            distinct (map (\<lambda>(a, b, v). (a, b)) long') \<and>
            set (map (\<lambda>(a, b, v). (a, b)) long') = (fst ` set ks) \<times> (snd ` set ks))"
proof (intro conjI impI)
  assume "count_long df d1 d2 vn = Inr long"
  then have m: "melt vn (unstack (CInt 0) (key_levels df d1 d2) (size_series ks)) = Inr long"
    using assms by (rule count_long_Inr)
  show "length long = card (fst ` set ks) * card (snd ` set ks)"
    using long_form_grid(1) [OF m] by (simp add: keys_size_series)
  show "distinct (map (\<lambda>(a, b, v). (a, b)) long)"
    using m by (rule long_form_grid(2))
  show "set (map (\<lambda>(a, b, v). (a, b)) long) = (fst ` set ks) \<times> (snd ` set ks)"
    using long_form_grid(3) [OF m] by (simp add: keys_size_series)
  show "\<forall>(a, b, v) \<in> set long.
          v = CInt (of_nat (count_list ks (a, b))) \<and> ((a, b) \<notin> set ks \<longrightarrow> v = CInt 0)"
    using long_form_grid(4) [OF m] by (auto simp: map_of_size_series count_list_0_iff)
next
  assume "sum_long df d1 d2 c vn' = Inr long'"
  then obtain s where s: "groupby_sum df d1 d2 c = Inr s"
    and m: "melt vn' (unstack CNull (key_levels df d1 d2) s) = Inr long'"
    by (rule sum_long_Inr)
  have k: "fst ` set s = set ks"
    using s assms by (rule keys_groupby_sum)
  show "length long' = card (fst ` set ks) * card (snd ` set ks)"
    using long_form_grid(1) [OF m] by (simp add: k)
  show "distinct (map (\<lambda>(a, b, v). (a, b)) long')"
    using m by (rule long_form_grid(2))
  show "set (map (\<lambda>(a, b, v). (a, b)) long') = (fst ` set ks) \<times> (snd ` set ks)"
    using long_form_grid(3) [OF m] by (simp add: k)
qed

theorem aggregation_long_form_witness:
  "group_keys
     \<lparr>columns = [''year_interval'', ''type''],
      rows = [[CInt 2015, CStr ''SHOW''], [CInt 2020, CStr ''MOVIE''], [CInt 2020, CStr ''MOVIE'']]\<rparr>
     ''year_interval'' ''type''
     = Inr [(CInt 2015, CStr ''SHOW''), (CInt 2020, CStr ''MOVIE''), (CInt 2020, CStr ''MOVIE'')] \<and>
   count_long
     \<lparr>columns = [''year_interval'', ''type''],
      rows = [[CInt 2015, CStr ''SHOW''], [CInt 2020, CStr ''MOVIE''], [CInt 2020, CStr ''MOVIE'']]\<rparr>
     ''year_interval'' ''type'' ''Count''
     = Inr [(CInt 2015, CStr ''MOVIE'', CInt 0), (CInt 2020, CStr ''MOVIE'', CInt 2),
            (CInt 2015, CStr ''SHOW'', CInt 1), (CInt 2020, CStr ''SHOW'', CInt 0)] \<and>
   length [(CInt 2015, CStr ''MOVIE'', CInt 0), (CInt 2020, CStr ''MOVIE'', CInt 2),
           (CInt 2015, CStr ''SHOW'', CInt 1), (CInt 2020, CStr ''SHOW'', CInt 0)]
     = card (fst ` set [(CInt 2015, CStr ''SHOW''), (CInt 2020, CStr ''MOVIE''),
                        (CInt 2020, CStr ''MOVIE'')])
       * card (snd ` set [(CInt 2015, CStr ''SHOW''), (CInt 2020, CStr ''MOVIE''),
                          (CInt 2020, CStr ''MOVIE'')])"
proof -
  let ?df = "\<lparr>columns = [''year_interval'', ''type''],
      rows = [[CInt 2015, CStr ''SHOW''], [CInt 2020, CStr ''MOVIE''], [CInt 2020, CStr ''MOVIE'']]\<rparr>"
  have g: "group_keys ?df ''year_interval'' ''type''
     = Inr [(CInt 2015, CStr ''SHOW''), (CInt 2020, CStr ''MOVIE''), (CInt 2020, CStr ''MOVIE'')]"
    by (simp add: group_keys_def get_column_def cell_at_def)
  have c: "count_long ?df ''year_interval'' ''type'' ''Count''
     = Inr [(CInt 2015, CStr ''MOVIE'', CInt 0), (CInt 2020, CStr ''MOVIE'', CInt 2),
            (CInt 2015, CStr ''SHOW'', CInt 1), (CInt 2020, CStr ''SHOW'', CInt 0)]"
    by (simp add: count_long_def groupby_size_def g size_series_def reset_index_def melt_def
        unstack_def key_levels_def level_order_def sort_pairs_def sort_unique_def
        get_column_def cell_at_def)
  show ?thesis
    using aggregation_long_form [OF g, of "''Count''" _ "''x''" "''y''" "[]"] g c by simp
qed

text \<open>
  C5 as stated fails when a dimension is missing in some row: the grouping drops the row,
  so a first key that only occurs there (2015 below) has no row at all in the output,
  which is shorter than the product of the distinct values of the two columns.
\<close>

theorem aggregation_counterexample:
  "count_long
     \<lparr>columns = [''year_interval'', ''genres''],
      rows = [[CInt 2015, CNull], [CInt 2020, CStr ''Drama'']]\<rparr>
     ''year_interval'' ''genres'' ''Count''
     = Inr [(CInt 2020, CStr ''Drama'', CInt 1)] \<and>
   length [(CInt 2020, CStr ''Drama'', CInt 1)]
     \<noteq> card {CInt 2015, CInt 2020} * card {CStr ''Drama''}"
  by (simp add: count_long_def groupby_size_def group_keys_def get_column_def cell_at_def
      size_series_def reset_index_def melt_def unstack_def key_levels_def level_order_def sort_pairs_def sort_unique_def)

text \<open>
  The viewership aggregation calls \<^verbatim>\<open>unstack\<close> without \<^verbatim>\<open>fill_value\<close>: a pair of age group
  and region that no row has is there with the missing value, not with zero.
\<close>

lemma sum_long_missing_pair_example:
  "sum_long
     \<lparr>columns = [''viewer_age_group'', ''viewer_region'', ''viewership_count''],
      rows = [[CStr ''18-25'', CStr ''US'', CInt 100], [CStr ''26-35'', CStr ''IN'', CInt 50]]\<rparr>
     ''viewer_age_group'' ''viewer_region'' ''viewership_count'' ''Viewership''
     = Inr [(CStr ''18-25'', CStr ''IN'', CNull), (CStr ''26-35'', CStr ''IN'', CInt 50),
            (CStr ''18-25'', CStr ''US'', CInt 100), (CStr ''26-35'', CStr ''US'', CNull)]"
  by (simp add: sum_long_def groupby_sum_def get_column_def cell_at_def
      reset_index_def melt_def unstack_def key_levels_def level_order_def sort_pairs_def sort_unique_def)

text \<open>
  The order of the labels when a level has an unused value: the genre \<^verbatim>\<open>a\<close> occurs only in
  a row without year, so the labels come in the order of the sorted key pairs, \<^verbatim>\<open>z\<close> before
  \<^verbatim>\<open>b\<close>.
\<close>

lemma unstack_order_example:
  "count_long
     \<lparr>columns = [''year_interval'', ''genres''],
      rows = [[CNull, CStr ''a''], [CInt 1, CStr ''z''], [CInt 2, CStr ''b'']]\<rparr>
     ''year_interval'' ''genres'' ''Count''
     = Inr [(CInt 1, CStr ''z'', CInt 1), (CInt 2, CStr ''z'', CInt 0),
            (CInt 1, CStr ''b'', CInt 0), (CInt 2, CStr ''b'', CInt 1)]"
  by (simp add: count_long_def groupby_size_def group_keys_def get_column_def cell_at_def
      size_series_def reset_index_def melt_def unstack_def key_levels_def level_order_def
      sort_pairs_def sort_unique_def)

subsection \<open>What the analyses do to the frame they are given\<close>













text \<open>
  An evaluation that writes to the table: the genre text \<^verbatim>\<open>data.__setitem__('release_year', 0)\<close>
  of a show makes \<open>plot_genre_popularity\<close> change the release years of the caller's table.
\<close>

lemma eval_changes_table_example:
  "fst (plot_genre_popularity eval_examples
     \<lparr>columns = [''type'', ''release_year'', ''genres''],
      rows = [[CStr ''SHOW'', CInt 2019,
               CStr (''data.__setitem__('' @ quoted ''release_year'' @ '', 0)'')]]\<rparr>)
     = \<lparr>columns = [''type'', ''release_year'', ''genres''],
        rows = [[CStr ''SHOW'', CInt 0,
                 CStr (''data.__setitem__('' @ quoted ''release_year'' @ '', 0)'')]]\<rparr>"
  by (simp add: plot_genre_popularity_def show_rows_def get_column_def cell_at_def
      set_column_def genre_popularity_long_def explode_def with_year_interval_def
      year_interval_column_def year_interval_def count_long_def groupby_size_def
      group_keys_def size_series_def reset_index_def melt_def unstack_def key_levels_def
      level_order_def sort_pairs_def sort_unique_def eval_examples_def quoted_def
      apostrophe_def)

subsection \<open>Guards\<close>

text \<open>
  C9, as amended. When the frame has no column \<^verbatim>\<open>genres\<close>, \<open>plot_genre_popularity\<close> prints
  its diagnostic and returns: no text is evaluated, nothing is drawn, nothing is raised
  and the frame is untouched. The same holds for \<open>plot_genre_distribution_by_region\<close> when
  \<^verbatim>\<open>genres\<close> or \<^verbatim>\<open>viewer_region\<close> is absent.
\<close>

theorem genre_guards:
  "(''genres'' \<notin> set (columns df) \<longrightarrow>
      plot_genre_popularity ev df
        = (df, [Print (''No '' @ apostrophe @ ''genres'' @ apostrophe
                  @ '' column found. Please check the dataset.'')], None)) \<and>
   (''genres'' \<notin> set (columns df) \<or> ''viewer_region'' \<notin> set (columns df) \<longrightarrow>
      plot_genre_distribution_by_region ev df
        = (df, [Print (''The '' @ apostrophe @ ''genres'' @ apostrophe @ '' or '' @ apostrophe
                  @ ''viewer_region'' @ apostrophe
                  @ '' column is not found in the dataset.'')], None))"
  by (simp add: plot_genre_popularity_def plot_genre_distribution_by_region_def)

theorem genre_guards_witness:
  "plot_genre_popularity eval_examples
     \<lparr>columns = [''show_id'', ''type''], rows = [[CInt 1, CStr ''SHOW'']]\<rparr>
     = (\<lparr>columns = [''show_id'', ''type''], rows = [[CInt 1, CStr ''SHOW'']]\<rparr>,
        [Print (''No '' @ apostrophe @ ''genres'' @ apostrophe
           @ '' column found. Please check the dataset.'')], None) \<and>
   plot_genre_distribution_by_region eval_examples
     \<lparr>columns = [''show_id'', ''genres''], rows = [[CInt 1, CStr ''[]'']]\<rparr>
     = (\<lparr>columns = [''show_id'', ''genres''], rows = [[CInt 1, CStr ''[]'']]\<rparr>,
        [Print (''The '' @ apostrophe @ ''genres'' @ apostrophe @ '' or '' @ apostrophe
           @ ''viewer_region'' @ apostrophe @ '' column is not found in the dataset.'')], None)"
  using genre_guards [of "\<lparr>columns = [''show_id'', ''type''], rows = [[CInt 1, CStr ''SHOW'']]\<rparr>"
      eval_examples]
    genre_guards [of "\<lparr>columns = [''show_id'', ''genres''], rows = [[CInt 1, CStr ''[]'']]\<rparr>"
      eval_examples]
  by simp

text \<open>
  C9 as stated fails for the columns that no guard names: without \<^verbatim>\<open>release_year\<close>,
  \<open>plot_movies_vs_shows\<close> raises \<^verbatim>\<open>KeyError\<close> and prints nothing; without \<^verbatim>\<open>type\<close>,
  \<open>plot_genre_popularity\<close> passes its guard and raises \<^verbatim>\<open>KeyError\<close>.
\<close>

theorem guards_counterexample:
  "plot_movies_vs_shows \<lparr>columns = [''show_id'', ''type''], rows = [[CInt 1, CStr ''SHOW'']]\<rparr>
     = (\<lparr>columns = [''show_id'', ''type''], rows = [[CInt 1, CStr ''SHOW'']]\<rparr>, [],
        Some (KeyError ''release_year'')) \<and>
   plot_genre_popularity eval_examples
     \<lparr>columns = [''show_id'', ''genres''], rows = [[CInt 1, CStr ''[]'']]\<rparr>
     = (\<lparr>columns = [''show_id'', ''genres''], rows = [[CInt 1, CStr ''[]'']]\<rparr>, [],
        Some (KeyError ''type''))"
  by (simp add: plot_movies_vs_shows_def with_year_interval_def get_column_def
      plot_genre_popularity_def show_rows_def)

subsection \<open>Genre popularity and the rows that are not shows\<close>

lemma select_by_column:
  "map fst (filter (\<lambda>(r, t). t = k) (zip rs (map f rs))) = filter (\<lambda>r. f r = k) rs"
  by (induction rs) auto

lemma show_rows_filter:
  assumes "col_index ''type'' (columns df) = Some i"
  shows "show_rows df = Inr (df\<lparr>rows := filter (\<lambda>r. cell_at r i = CStr ''SHOW'') (rows df)\<rparr>)"
  using assms by (simp add: show_rows_def get_column_def select_by_column)

text \<open>A pass whose evaluations do not look at the table gives the same events and values
  from any table.\<close>

lemma apply_eval_blind:
  assumes "\<forall>s t t'. CStr s \<in> set cs \<longrightarrow>
             fst (ev s t) = fst (ev s t') \<and> snd (snd (ev s t)) = snd (snd (ev s t'))"
  shows "fst (apply_eval ev cs t) = fst (apply_eval ev cs t') \<and>
         snd (snd (apply_eval ev cs t)) = snd (snd (apply_eval ev cs t'))"
  using assms
proof (induction cs arbitrary: t t')
  case Nil
  then show ?case by simp
next
  case (Cons c cs)
  have ih: "fst (apply_eval ev cs u) = fst (apply_eval ev cs u') \<and>
            snd (snd (apply_eval ev cs u)) = snd (snd (apply_eval ev cs u'))" for u u'
    using Cons.IH Cons.prems by simp
  show ?case
  proof (cases c)
    case (CStr s)
    obtain es t1 r where e: "ev s t = (es, t1, r)"
      by (cases "ev s t") auto
    obtain es' t1' r' where e': "ev s t' = (es', t1', r')"
      by (cases "ev s t'") auto
    have same: "es = es'" "r = r'"
      using Cons.prems [rule_format, of s t t'] e e' CStr by simp_all
    obtain fs u q where a: "apply_eval ev cs t1 = (fs, u, q)"
      by (cases "apply_eval ev cs t1") auto
    obtain fs' u' q' where a': "apply_eval ev cs t1' = (fs', u', q')"
      by (cases "apply_eval ev cs t1'") auto
    have "fs = fs'" "q = q'"
      using ih [of t1 t1'] a a' by simp_all
    with CStr e e' same a a' show ?thesis
      by (auto split: sum.splits)
  next
    case (CInt w)
    obtain fs u q where a: "apply_eval ev cs t = (fs, u, q)"
      by (cases "apply_eval ev cs t") auto
    obtain fs' u' q' where a': "apply_eval ev cs t' = (fs', u', q')"
      by (cases "apply_eval ev cs t'") auto
    have "fs = fs'" "q = q'"
      using ih [of t t'] a a' by simp_all
    with CInt a a' show ?thesis
      by (auto split: sum.splits)
  next
    case (CList xs)
    obtain fs u q where a: "apply_eval ev cs t = (fs, u, q)"
      by (cases "apply_eval ev cs t") auto
    obtain fs' u' q' where a': "apply_eval ev cs t' = (fs', u', q')"
      by (cases "apply_eval ev cs t'") auto
    have "fs = fs'" "q = q'"
      using ih [of t t'] a a' by simp_all
    with CList a a' show ?thesis
      by (auto split: sum.splits)
  next
    case CNull
    obtain fs u q where a: "apply_eval ev cs t = (fs, u, q)"
      by (cases "apply_eval ev cs t") auto
    obtain fs' u' q' where a': "apply_eval ev cs t' = (fs', u', q')"
      by (cases "apply_eval ev cs t'") auto
    have "fs = fs'" "q = q'"
      using ih [of t t'] a a' by simp_all
    with CNull a a' show ?thesis
      by (auto split: sum.splits)
  qed
qed

text \<open>
  The selection by type does its part: when no evaluation looks at the table, two tables
  with the same labels and the same rows of type \<^verbatim>\<open>SHOW\<close> give the same events and the
  same outcome.
\<close>

lemma genre_popularity_shows_only_if_eval_blind:
  assumes "columns df1 = columns df2"
    and "col_index ''type'' (columns df1) = Some i"
    and "filter (\<lambda>r. cell_at r i = CStr ''SHOW'') (rows df1)
           = filter (\<lambda>r. cell_at r i = CStr ''SHOW'') (rows df2)"
    and "\<forall>s t t'. fst (ev s t) = fst (ev s t') \<and> snd (snd (ev s t)) = snd (snd (ev s t'))"
  shows "snd (plot_genre_popularity ev df1) = snd (plot_genre_popularity ev df2)"
proof -
  have "df1\<lparr>rows := filter (\<lambda>r. cell_at r i = CStr ''SHOW'') (rows df1)\<rparr>
          = df2\<lparr>rows := filter (\<lambda>r. cell_at r i = CStr ''SHOW'') (rows df2)\<rparr>"
    using assms(1,3) by simp
  then have sr: "show_rows df1 = show_rows df2"
    using show_rows_filter [of df1 i] show_rows_filter [of df2 i] assms(1,2) by simp
  have blind: "fst (apply_eval ev cs df1) = fst (apply_eval ev cs df2) \<and>
               snd (snd (apply_eval ev cs df1)) = snd (snd (apply_eval ev cs df2))" for cs
    using assms(4) by (intro apply_eval_blind) simp
  show ?thesis
  proof (cases "show_rows df2")
    case (Inl e)
    with sr assms(1) show ?thesis
      by (simp add: plot_genre_popularity_def)
  next
    case (Inr tv)
    show ?thesis
    proof (cases "get_column tv ''genres''")
      case (Inl e)
      with sr Inr assms(1) show ?thesis
        by (simp add: plot_genre_popularity_def)
    next
      case g: (Inr gs)
      obtain es u r where a: "apply_eval ev gs df1 = (es, u, r)"
        by (cases "apply_eval ev gs df1") auto
      obtain es' u' r' where a': "apply_eval ev gs df2 = (es', u', r')"
        by (cases "apply_eval ev gs df2") auto
      have "es = es'" "r = r'"
        using blind [of gs] a a' by simp_all
      with sr Inr g a a' assms(1) show ?thesis
        by (simp add: plot_genre_popularity_def split: sum.splits)
    qed
  qed
qed

text \<open>
  C10 does not hold of the code. The analysis selects the rows of type \<^verbatim>\<open>SHOW\<close>, but it
  then evaluates their genre texts with the whole table in reach. Below, the only show
  has the genre text \<^verbatim>\<open>data['genres'].tolist()\<close>; its evaluation returns the genre entries
  of all rows, so the genre text of the \<^verbatim>\<open>MOVIE\<close> row is counted in the chart, and two
  tables that differ in the \<^verbatim>\<open>MOVIE\<close> row alone give different counts.
\<close>

theorem genre_popularity_counts_other_rows:
  "snd (plot_genre_popularity eval_examples
     \<lparr>columns = [''type'', ''release_year'', ''genres''],
      rows = [[CStr ''SHOW'', CInt 2019, CStr (''data['' @ quoted ''genres'' @ ''].tolist()'')],
              [CStr ''MOVIE'', CInt 2001, CStr (''['' @ quoted ''Drama'' @ '']'')]]\<rparr>)
     = ([BarChart [(CInt 2015, CStr (''['' @ quoted ''Drama'' @ '']''), CInt 1),
                   (CInt 2015, CStr (''data['' @ quoted ''genres'' @ ''].tolist()''), CInt 1)]],
        None) \<and>
   snd (plot_genre_popularity eval_examples
     \<lparr>columns = [''type'', ''release_year'', ''genres''],
      rows = [[CStr ''SHOW'', CInt 2019, CStr (''data['' @ quoted ''genres'' @ ''].tolist()'')],
              [CStr ''MOVIE'', CInt 2001, CStr ''[]'']]\<rparr>)
     = ([BarChart [(CInt 2015, CStr ''[]'', CInt 1),
                   (CInt 2015, CStr (''data['' @ quoted ''genres'' @ ''].tolist()''), CInt 1)]],
        None)"
  by (simp add: plot_genre_popularity_def show_rows_def get_column_def cell_at_def
      set_column_def genre_popularity_long_def explode_def with_year_interval_def
      year_interval_column_def year_interval_def count_long_def groupby_size_def
      group_keys_def size_series_def reset_index_def melt_def unstack_def key_levels_def
      level_order_def sort_pairs_def sort_unique_def eval_examples_def quoted_def
      apostrophe_def)

theorem genre_popularity_counts_other_rows_witness:
  "(CInt 2015, CStr (''['' @ quoted ''Drama'' @ '']''), CInt 1)
     \<in> set (case fst (snd (plot_genre_popularity eval_examples
          \<lparr>columns = [''type'', ''release_year'', ''genres''],
           rows = [[CStr ''SHOW'', CInt 2019, CStr (''data['' @ quoted ''genres'' @ ''].tolist()'')],
                   [CStr ''MOVIE'', CInt 2001, CStr (''['' @ quoted ''Drama'' @ '']'')]]\<rparr>)) of
               [BarChart long] \<Rightarrow> long | _ \<Rightarrow> [])"
  using genre_popularity_counts_other_rows by simp

subsection \<open>Evaluation of genre texts\<close>

lemma apply_eval_single:
  "apply_eval ev [CStr s] t
     = (case ev s t of (es, t1, Inl e) \<Rightarrow> (es, t1, Inl e) | (es, t1, Inr v) \<Rightarrow> (es, t1, Inr [v]))"
  by (simp split: prod.splits sum.splits)

text \<open>
  C1 does not hold of the code. Both genre analyses hand the text of a genre cell to
  \<^verbatim>\<open>eval\<close> as it stands: for every text \<open>s\<close> and whatever \<^verbatim>\<open>eval\<close> does, the events of the
  analysis begin with the side effects of evaluating \<open>s\<close>. Nothing restricts \<open>s\<close> to a
  literal list, string or number first, so a text that is a call is called.
\<close>

theorem genre_text_is_evaluated:
  "(\<exists>rest. fst (snd (plot_genre_popularity ev
       \<lparr>columns = [''type'', ''release_year'', ''genres''],
        rows = [[CStr ''SHOW'', CInt y, CStr s]]\<rparr>))
     = fst (ev s \<lparr>columns = [''type'', ''release_year'', ''genres''],
                  rows = [[CStr ''SHOW'', CInt y, CStr s]]\<rparr>) @ rest) \<and>
   (\<exists>rest. fst (snd (plot_genre_distribution_by_region ev
       \<lparr>columns = [''genres'', ''viewer_region''],
        rows = [[CStr s, CStr region]]\<rparr>))
     = fst (ev s \<lparr>columns = [''genres'', ''viewer_region''],
                  rows = [[CStr s, CStr region]]\<rparr>) @ rest)"
proof
  let ?tv = "\<lparr>columns = [''type'', ''release_year'', ''genres''],
        rows = [[CStr ''SHOW'', CInt y, CStr s]]\<rparr>"
  have sr: "show_rows ?tv = Inr ?tv"
    by (simp add: show_rows_def get_column_def cell_at_def)
  have g: "get_column ?tv ''genres'' = Inr [CStr s]"
    by (simp add: get_column_def cell_at_def)
  obtain es t1 r where e: "ev s ?tv = (es, t1, r)"
    by (cases "ev s ?tv") auto
  show "\<exists>rest. fst (snd (plot_genre_popularity ev ?tv)) = fst (ev s ?tv) @ rest"
    by (cases r)
       (auto simp: plot_genre_popularity_def sr g apply_eval_single e split: sum.splits)
next
  let ?df = "\<lparr>columns = [''genres'', ''viewer_region''], rows = [[CStr s, CStr region]]\<rparr>"
  have g: "get_column ?df ''genres'' = Inr [CStr s]"
    by (simp add: get_column_def cell_at_def)
  obtain es t1 r where e: "ev s ?df = (es, t1, r)"
    by (cases "ev s ?df") auto
  show "\<exists>rest. fst (snd (plot_genre_distribution_by_region ev ?df)) = fst (ev s ?df) @ rest"
    by (cases r)
       (auto simp: plot_genre_distribution_by_region_def g apply_eval_single e Let_def
          split: sum.splits prod.splits)
qed

text \<open>
  At the text \<^verbatim>\<open>__import__('os').system('id')\<close>, with an evaluator that records the text it
  runs: the analysis runs the call, where a parser of literals would have refused it.
\<close>

theorem genre_text_is_evaluated_witness:
  "plot_genre_distribution_by_region (\<lambda>s t. ([SideEffect s], t, Inr (CInt 0)))
     \<lparr>columns = [''genres'', ''viewer_region''],
      rows = [[CStr (''__import__('' @ apostrophe @ ''os'' @ apostrophe @ '').system(''
                      @ apostrophe @ ''id'' @ apostrophe @ '')''), CStr ''US'']]\<rparr>
     = (\<lparr>columns = [''genres'', ''viewer_region''], rows = [[CInt 0, CStr ''US'']]\<rparr>,
        [SideEffect (''__import__('' @ apostrophe @ ''os'' @ apostrophe @ '').system(''
                      @ apostrophe @ ''id'' @ apostrophe @ '')''),
         PieChart (CStr ''US'') [(CInt 0, CInt 1)]],
        None)"
proof -
  let ?s = "''__import__('' @ apostrophe @ ''os'' @ apostrophe @ '').system(''
              @ apostrophe @ ''id'' @ apostrophe @ '')''"
  let ?ev = "\<lambda>s t. ([SideEffect s], t, Inr (CInt 0))"
  let ?df = "\<lparr>columns = [''genres'', ''viewer_region''], rows = [[CStr ?s, CStr ''US'']]\<rparr>"
  have "plot_genre_distribution_by_region ?ev ?df
          = (\<lparr>columns = [''genres'', ''viewer_region''], rows = [[CInt 0, CStr ''US'']]\<rparr>,
             [SideEffect ?s, PieChart (CStr ''US'') [(CInt 0, CInt 1)]], None)"
    by (simp add: plot_genre_distribution_by_region_def get_column_def
        cell_at_def set_column_def explode_def groupby_size_def group_keys_def size_series_def
        unstack_def key_levels_def level_order_def sort_pairs_def sort_unique_def)
  then show ?thesis
    using genre_text_is_evaluated [of ?ev 0 ?s "''US''"] by simp
qed

end
